theory Spec2Isabelle
  imports Main
begin

section \<open>JavaScript values\<close>

text \<open>
  A JavaScript string is a sequence of UTF-16 code units, so it is modelled as a list of
  natural numbers and not as a HOL \<open>string\<close>, whose characters are bytes: \<open>btoa\<close>
  distinguishes code units above 255. \<open>js\<close> turns an ASCII literal of the source into
  its code units.
\<close>

type_synonym jsstring = "nat list"

definition js :: "string \<Rightarrow> jsstring" where
  "js s = map of_char s"

text \<open>
  The values the pipeline handles: what \<open>JSON.parse\<close> produces, plus \<open>undefined\<close>.
  Numbers are restricted to integers. An object is the list of its own properties in the
  order they were created; function values are not modelled as data (callbacks of the
  configuration are HOL functions instead).
\<close>

datatype jsval =
    JUndefined
  | JNull
  | JBool bool
  | JNum int
  | JStr jsstring
  | JArr "jsval list"
  | JObj "(jsstring \<times> jsval) list"

type_synonym jsobj = "(jsstring \<times> jsval) list"

datatype jstype = TUndefined | TObject | TBoolean | TNumber | TString

fun js_typeof :: "jsval \<Rightarrow> jstype" where
  "js_typeof JUndefined = TUndefined"
| "js_typeof JNull = TObject"
| "js_typeof (JBool b) = TBoolean"
| "js_typeof (JNum n) = TNumber"
| "js_typeof (JStr s) = TString"
| "js_typeof (JArr xs) = TObject"
| "js_typeof (JObj kvs) = TObject"

fun truthy :: "jsval \<Rightarrow> bool" where
  "truthy JUndefined = False"
| "truthy JNull = False"
| "truthy (JBool b) = b"
| "truthy (JNum n) = (n \<noteq> 0)"
| "truthy (JStr s) = (s \<noteq> [])"
| "truthy (JArr xs) = True"
| "truthy (JObj kvs) = True"

text \<open>\<open>{...obj, [key]: value}\<close> and \<open>Object.assign(obj, {[key]: value})\<close>: an existing
  property keeps its place and takes the new value, a new one is appended.\<close>

fun obj_set :: "(jsstring \<times> 'v) list \<Rightarrow> jsstring \<Rightarrow> 'v \<Rightarrow> (jsstring \<times> 'v) list" where
  "obj_set [] k v = [(k, v)]"
| "obj_set ((k', v') # kvs) k v =
     (if k' = k then (k, v) # kvs else (k', v') # obj_set kvs k v)"

text \<open>\<open>{...a, ...b}\<close>: the properties of \<open>b\<close> are assigned onto a copy of \<open>a\<close> in
  order.\<close>

fun obj_spread :: "(jsstring \<times> 'v) list \<Rightarrow> (jsstring \<times> 'v) list \<Rightarrow> (jsstring \<times> 'v) list" where
  "obj_spread a [] = a"
| "obj_spread a ((k, v) # kvs) = obj_spread (obj_set a k v) kvs"

text \<open>
  Property access \<open>base[key]\<close>. Reading a property of \<open>undefined\<close> or \<open>null\<close>
  is a \<open>TypeError\<close>; a missing property is \<open>undefined\<close>. Strings and arrays have
  \<open>length\<close> and their indices. These are the own properties; \<open>js_get\<close> serves where
  the keys are those of the data. Where a path of the configuration is followed through a
  response, the lookup goes on to the prototype chain (\<open>js_lookup\<close> below).
\<close>

definition is_digit :: "nat \<Rightarrow> bool" where
  "is_digit c = (48 \<le> c \<and> c \<le> 57)"

definition array_index :: "jsstring \<Rightarrow> nat option" where
  "array_index k =
     (if k \<noteq> [] \<and> list_all is_digit k \<and> (hd k \<noteq> 48 \<or> length k = 1)
      then Some (foldl (\<lambda>a d. 10 * a + (d - 48)) 0 k) else None)"

section \<open>Errors\<close>

text \<open>
  An error handler of the configuration is an opaque callback; it is identified by a
  number so that a result can say which handler was invoked. Handlers are taken to
  return (a handler that throws only replaces the error that propagates).

  \<open>Thrown h m d\<close> is the \<open>Error\<close> that \<open>throwError\<close> throws: with \<open>h = Some f\<close> the
  handler \<open>f\<close> was invoked first, with the error of message \<open>m\<close> and the details \<open>d\<close>;
  with \<open>h = None\<close> no handler was configured and \<open>d\<close> is the cause. The other
  constructors are exceptions raised by the platform, which reach no handler unless the
  source catches them.
\<close>

type_synonym errorHandlerType = nat

datatype js_error =
    TypeError
  | AbortError
  | NetworkError
  | SyntaxError
  | InvalidCharacterError
  | Thrown "errorHandlerType option" errmsg "errmsg option"
and errmsg =
    Msg jsstring
  | Caught js_error

definition bindE :: "js_error + 'a \<Rightarrow> ('a \<Rightarrow> js_error + 'b) \<Rightarrow> js_error + 'b" where
  "bindE m f = (case m of Inl e \<Rightarrow> Inl e | Inr x \<Rightarrow> f x)"

definition throwError ::
  "errmsg \<Rightarrow> errorHandlerType option \<Rightarrow> jsstring option \<Rightarrow> bool \<Rightarrow> js_error + unit" where
  "throwError errorMessage globalErrorHandler customErrorMessage useThrow =
     (case globalErrorHandler of
        Some h \<Rightarrow>
          if useThrow
          then Inl (Thrown (Some h) errorMessage
                  (Some (case customErrorMessage of Some c \<Rightarrow> Msg c | None \<Rightarrow> errorMessage)))
          else Inr ()
      | None \<Rightarrow> Inl (Thrown None errorMessage (map_option Msg customErrorMessage)))"

fun js_get :: "jsval \<Rightarrow> jsstring \<Rightarrow> js_error + jsval" where
  "js_get JUndefined k = Inl TypeError"
| "js_get JNull k = Inl TypeError"
| "js_get (JBool b) k = Inr JUndefined"
| "js_get (JNum n) k = Inr JUndefined"
| "js_get (JStr s) k =
     Inr (if k = js ''length'' then JNum (int (length s))
          else case array_index k of
                 Some i \<Rightarrow> if i < length s then JStr [s ! i] else JUndefined
               | None \<Rightarrow> JUndefined)"
| "js_get (JArr xs) k =
     Inr (if k = js ''length'' then JNum (int (length xs))
          else case array_index k of
                 Some i \<Rightarrow> if i < length xs then xs ! i else JUndefined
               | None \<Rightarrow> JUndefined)"
| "js_get (JObj kvs) k = Inr (case map_of kvs k of Some v \<Rightarrow> v | None \<Rightarrow> JUndefined)"

section \<open>JSON.stringify\<close>

function digits_of :: "nat \<Rightarrow> jsstring" where
  "digits_of n = (if n < 10 then [48 + n] else digits_of (n div 10) @ [48 + n mod 10])"
  by pat_completeness auto
termination
  by (relation "measure id") auto

declare digits_of.simps [simp del]

definition number_text :: "int \<Rightarrow> jsstring" where
  "number_text i = (if i < 0 then 45 # digits_of (nat (- i)) else digits_of (nat i))"

definition hex_digit :: "nat \<Rightarrow> nat" where
  "hex_digit n = (if n < 10 then 48 + n else 87 + n)"

text \<open>The escapes of \<open>QuoteJSONString\<close>: quote (34) and backslash (92), the short
  escapes for backspace, form feed, line feed, carriage return and tab, \<open>\uXXXX\<close> with
  lower-case digits for the other control characters.\<close>

definition UnicodeEscape :: "nat \<Rightarrow> jsstring" where
  "UnicodeEscape c =
     [92, 117, hex_digit (c div 4096), hex_digit (c div 256 mod 16),
      hex_digit (c div 16 mod 16), hex_digit (c mod 16)]"

definition escape_unit :: "nat \<Rightarrow> jsstring" where
  "escape_unit c =
     (if c = 34 then [92, 34] else if c = 92 then [92, 92]
      else if c = 8 then [92, 98] else if c = 12 then [92, 102]
      else if c = 10 then [92, 110] else if c = 13 then [92, 114]
      else if c = 9 then [92, 116]
      else if c < 32 then UnicodeEscape c
      else [c])"

text \<open>The string is read by code points: a leading surrogate (\<open>D800\<close> to \<open>DBFF\<close>, the
  code units from \<open>54 * 1024\<close> up to \<open>55 * 1024\<close>) directly followed by a trailing one
  (\<open>DC00\<close> to \<open>DFFF\<close>, from \<open>55 * 1024\<close> up to \<open>56 * 1024\<close>) is one code point and is
  copied; a surrogate that is not part of such a pair is written \<open>\uXXXX\<close>.\<close>

definition leading_surrogate :: "nat \<Rightarrow> bool" where
  "leading_surrogate c = (c div 1024 = 54)"

definition trailing_surrogate :: "nat \<Rightarrow> bool" where
  "trailing_surrogate c = (c div 1024 = 55)"

definition escape_point :: "nat \<Rightarrow> jsstring" where
  "escape_point c =
     (if leading_surrogate c \<or> trailing_surrogate c then UnicodeEscape c else escape_unit c)"

fun quote_units :: "jsstring \<Rightarrow> jsstring" where
  "quote_units [] = []"
| "quote_units [c] = escape_point c"
| "quote_units (c # d # rest) =
     (if leading_surrogate c \<and> trailing_surrogate d then c # d # quote_units rest
      else escape_point c @ quote_units (d # rest))"

definition QuoteJSONString :: "jsstring \<Rightarrow> jsstring" where
  "QuoteJSONString s = 34 # quote_units s @ [34]"

fun join_commas :: "jsstring list \<Rightarrow> jsstring" where
  "join_commas [] = []"
| "join_commas [x] = x"
| "join_commas (x # y # ys) = x @ 44 # join_commas (y # ys)"

text \<open>\<open>None\<close> is the result \<open>undefined\<close>: an undefined array element is written
  \<open>null\<close>, an undefined property is left out.\<close>

fun SerializeJSONProperty :: "jsval \<Rightarrow> jsstring option" where
  "SerializeJSONProperty JUndefined = None"
| "SerializeJSONProperty JNull = Some (js ''null'')"
| "SerializeJSONProperty (JBool b) = Some (if b then js ''true'' else js ''false'')"
| "SerializeJSONProperty (JNum i) = Some (number_text i)"
| "SerializeJSONProperty (JStr s) = Some (QuoteJSONString s)"
| "SerializeJSONProperty (JArr xs) =
     Some (91 # join_commas
        (map (\<lambda>x. case SerializeJSONProperty x of None \<Rightarrow> js ''null'' | Some t \<Rightarrow> t) xs) @ [93])"
| "SerializeJSONProperty (JObj kvs) =
     Some (123 # join_commas
        (concat (map (\<lambda>(k, v). case SerializeJSONProperty v of None \<Rightarrow> []
                   | Some t \<Rightarrow> [QuoteJSONString k @ 58 # t]) kvs)) @ [125])"

definition JSON_stringify :: "jsval \<Rightarrow> jsval" where
  "JSON_stringify v = (case SerializeJSONProperty v of None \<Rightarrow> JUndefined | Some t \<Rightarrow> JStr t)"

text \<open>The text of a value as an array element.\<close>

definition text_of :: "jsval \<Rightarrow> jsstring" where
  "text_of v = (case SerializeJSONProperty v of None \<Rightarrow> js ''null'' | Some t \<Rightarrow> t)"

section \<open>Values that are not data\<close>

text \<open>
  A property access can leave the data: \<open>response["constructor"]\<close> is the function
  \<open>Object\<close>, found on the prototype chain. A node is a data value or a foreign value: a
  function or a built-in object of the engine, known by a number. A foreign value is never a
  string and never \<open>undefined\<close>, since those are data.
\<close>

datatype node = Data jsval | Foreign nat

type_synonym accumulatorType = "(jsstring \<times> node) list"

section \<open>The request executor\<close>

text \<open>
  The network and the clock are the environment: \<open>net k\<close> is what the \<open>k\<close>-th call of
  \<open>fetch\<close> does (counted over the whole run), \<open>clock k\<close> what the \<open>k\<close>-th call of
  \<open>Date.now\<close> returns. A fetch is rejected (\<open>AbortError\<close> when the timeout fires) or
  resolves to a response, of which the status and the results of \<open>json()\<close> and
  \<open>text()\<close> are used.
\<close>

record response =
  resp_status :: int
  resp_json :: "js_error + jsval"
  resp_text :: jsstring

datatype fetch_outcome = Rejected js_error | Resolved response

definition ok :: "response \<Rightarrow> bool" where
  "ok r = (200 \<le> resp_status r \<and> resp_status r \<le> 299)"

record retryContextType =
  attemptNumber :: int
  error :: js_error
  totalElapsedTime :: int
  lastAttemptTimeStamp :: int
  retryDelay :: int
  rc_maxRetries :: int
  rc_previousFetchData :: jsobj

text \<open>What a run does to the outside, in order. Logging is not modelled. Hooks, validators
  and handlers are handed the objects of the run themselves (the Ledger, the Fetch Record);
  they are taken to read them only, so a call is an event and changes nothing.\<close>

type_synonym callback = nat

datatype event =
    OnRequestStart callback jsval
  | HttpRequest jsstring jsobj
  | ErrorHandlerCall errorHandlerType errmsg
  | BackOffStrategyCall int retryContextType
  | RetryOnCall js_error int
  | OnRetryCall callback retryContextType
  | Delay int
  | OnRequestEnd callback jsval
  | BeforeRedirectCall callback jsobj jsval
  | FormAppended jsobj jsstring jsstring
  | FormSubmitted

record world =
  fetches :: nat
  clock_reads :: nat
  trace :: "event list"
  localStorage :: "jsstring \<rightharpoonup> jsstring"

text \<open>\<open>URLSearchParams\<close> and \<open>encodeURIComponent\<close> belong to the platform and
  \<open>pE\<close> to a module of the library that is not part of the sources at hand; the three
  encoders are parameters. So are the built-in objects of the engine: \<open>inherited v k\<close> is
  what the access \<open>v[k]\<close> finds on the prototype chain of the data value \<open>v\<close> when \<open>k\<close> is
  not an own property of \<open>v\<close> (the data \<open>undefined\<close> when there is nothing),
  \<open>foreignGet n k\<close> is the property \<open>k\<close> of the foreign value \<open>n\<close>, and both may raise an
  error as a getter may; \<open>foreignJSON n\<close> is what \<open>JSON.stringify\<close> makes of the foreign
  value \<open>n\<close> as a property value (\<open>None\<close> for a function, which is left out).\<close>

record environment =
  net :: "nat \<Rightarrow> fetch_outcome"
  clock :: "nat \<Rightarrow> int"
  urlSearchParams :: "jsval \<Rightarrow> jsstring"
  encodeURIComponent :: "jsval \<Rightarrow> jsstring"
  pE :: "jsval \<Rightarrow> jsstring"
  inherited :: "jsval \<Rightarrow> jsstring \<Rightarrow> js_error + node"
  foreignGet :: "nat \<Rightarrow> jsstring \<Rightarrow> js_error + node"
  foreignJSON :: "nat \<Rightarrow> jsstring option"

definition emit :: "event list \<Rightarrow> world \<Rightarrow> world" where
  "emit es w = w\<lparr>trace := trace w @ es\<rparr>"

definition parseRequest :: "response \<Rightarrow> jsstring \<Rightarrow> errorHandlerType \<Rightarrow> js_error + jsval" where
  "parseRequest r responseParseType onErrorInResponse =
     (if responseParseType = js ''json'' then resp_json r
      else if responseParseType = js ''text'' then Inr (JStr (resp_text r))
      else bindE
        (throwError (Msg (js ''Invalid response parse type specified'')) (Some onErrorInResponse)
           (Some (js ''The responseParseType field have either one from 'json' or 'text' as its value''))
           True)
        (\<lambda>_. Inr (JStr (js ''Invalid response parse type specified''))))"

text \<open>The parameters of \<open>waitAndRetryRequest\<close>. The hooks \<open>onRequestStart\<close> and
  \<open>onRetry\<close> are opaque callbacks, named by a number when they are set.\<close>

record retryArgs =
  a_requestUrl :: jsstring
  a_requestMethod :: jsstring
  a_requestHeaders :: jsobj
  a_requestBody :: jsval
  a_parseRequest :: "response \<Rightarrow> jsstring \<Rightarrow> errorHandlerType \<Rightarrow> js_error + jsval"
  a_timeout :: int
  a_onErrorInResponse :: errorHandlerType
  a_validateResponse :: "(jsobj \<Rightarrow> bool) list"
  a_previousFetchData :: jsobj
  a_maxRetries :: int
  a_backOffStrategy :: "int \<Rightarrow> retryContextType \<Rightarrow> int"
  a_onRetry :: "callback option"
  a_retryOn :: "js_error \<Rightarrow> int \<Rightarrow> bool"
  a_onRequestStart :: "callback option"
  a_currentFetchData :: jsval
  a_responseParseType :: jsstring
  a_proxy :: "jsstring option"

definition proxyInUse :: "retryArgs \<Rightarrow> bool" where
  "proxyInUse A = (case a_proxy A of None \<Rightarrow> False | Some p \<Rightarrow> p \<noteq> [])"

text \<open>The arguments of the \<open>fetch\<close> call: the URL and the options object.\<close>

definition bodyOption :: "jsval \<Rightarrow> jsval" where
  "bodyOption requestBody = (if requestBody = JStr (js ''{}'') then JNull else requestBody)"

definition fetchCall :: "retryArgs \<Rightarrow> event" where
  "fetchCall A =
     (if proxyInUse A
      then HttpRequest (case a_proxy A of Some p \<Rightarrow> p | None \<Rightarrow> [])
             [(js ''method'', JStr (js ''POST'')),
              (js ''headers'', JObj [(js ''Content-Type'', JStr (js ''application/json''))]),
              (js ''body'', JSON_stringify (JObj
                 [(js ''url'', JStr (a_requestUrl A)),
                  (js ''method'', JStr (a_requestMethod A)),
                  (js ''headers'', JObj (a_requestHeaders A)),
                  (js ''body'', bodyOption (a_requestBody A)),
                  (js ''parseResponseType'', JStr (a_responseParseType A))]))]
      else HttpRequest (a_requestUrl A)
             [(js ''method'', JStr (a_requestMethod A)),
              (js ''headers'', JObj (a_requestHeaders A)),
              (js ''body'', bodyOption (a_requestBody A))])"

text \<open>A proxy answers \<open>{status: "success", data}\<close>; \<open>Object.hasOwn(null, ...)\<close> is a
  \<open>TypeError\<close>.\<close>

definition proxyUnwrap :: "retryArgs \<Rightarrow> jsval \<Rightarrow> js_error + jsval" where
  "proxyUnwrap A parsed =
     (if proxyInUse A \<and> js_typeof parsed = TObject then
        (case parsed of
           JNull \<Rightarrow> Inl TypeError
         | JObj kvs \<Rightarrow>
             if map_of kvs (js ''status'') = Some (JStr (js ''success''))
             then Inr (case map_of kvs (js ''data'') of Some d \<Rightarrow> d | None \<Rightarrow> JUndefined)
             else bindE
               (throwError (Msg (js ''Proxy returned an object with status 'success' but no data. Please check the proxy response.''))
                  (Some (a_onErrorInResponse A)) None True)
               (\<lambda>_. Inr parsed)
         | _ \<Rightarrow> bindE
               (throwError (Msg (js ''Proxy returned an object with status 'success' but no data. Please check the proxy response.''))
                  (Some (a_onErrorInResponse A)) None True)
               (\<lambda>_. Inr parsed))
      else Inr parsed)"

fun runValidators :: "(jsobj \<Rightarrow> bool) list \<Rightarrow> jsobj \<Rightarrow> errorHandlerType \<Rightarrow> js_error + unit" where
  "runValidators [] previousFetchData onErrorInResponse = Inr ()"
| "runValidators (v # vs) previousFetchData onErrorInResponse =
     (if v previousFetchData then runValidators vs previousFetchData onErrorInResponse
      else bindE
        (throwError (Msg (js ''Response failed user validation.'')) (Some onErrorInResponse) None True)
        (\<lambda>_. runValidators vs previousFetchData onErrorInResponse))"

text \<open>The body of the \<open>try\<close> block once the fetch has settled: \<open>Inl\<close> is the error that
  reaches the \<open>catch\<close> clause, \<open>Inr\<close> the parsed payload that is returned.\<close>

definition tryBlock :: "retryArgs \<Rightarrow> fetch_outcome \<Rightarrow> js_error + jsval" where
  "tryBlock A out =
     (case out of
        Rejected e \<Rightarrow> Inl e
      | Resolved providerResponse \<Rightarrow>
          bindE (if \<not> ok providerResponse
                 then throwError (Msg (js ''Response has some error:{}''))
                        (Some (a_onErrorInResponse A)) None True
                 else Inr ())
            (\<lambda>_. bindE (a_parseRequest A providerResponse
                          (if proxyInUse A then js ''json'' else a_responseParseType A)
                          (a_onErrorInResponse A))
              (\<lambda>parsed. bindE (proxyUnwrap A parsed)
                (\<lambda>parsedProviderResponse.
                   bindE (runValidators (a_validateResponse A) (a_previousFetchData A)
                            (a_onErrorInResponse A))
                     (\<lambda>_. Inr parsedProviderResponse)))))"

text \<open>The handler invocations that an error of the \<open>try\<close> block has behind it.\<close>

fun handlerCalls :: "js_error \<Rightarrow> event list" where
  "handlerCalls (Thrown (Some h) m d) = [ErrorHandlerCall h m]"
| "handlerCalls e = []"

record loopState =
  retries :: int
  lastRetryDelay :: int
  ls_lastAttemptTimeStamp :: int
  lastRequestStatusCode :: int

definition maxRetriesReached :: jsval where
  "maxRetriesReached = JObj [(js ''error'', JStr (js ''Max Retries Reached''))]"

text \<open>One pass through the \<open>try\<close> block: the hook, the fetch, the checks. The status
  code is only overwritten when the fetch resolves.\<close>

definition tryPart ::
  "environment \<Rightarrow> retryArgs \<Rightarrow> loopState \<Rightarrow> world \<Rightarrow> (js_error + jsval) \<times> int \<times> world" where
  "tryPart E A s w =
     (let w1 = emit (case a_onRequestStart A of Some f \<Rightarrow> [OnRequestStart f (a_currentFetchData A)]
                      | None \<Rightarrow> []) w;
          out = net E (fetches w1);
          w2 = emit [fetchCall A] (w1\<lparr>fetches := Suc (fetches w1)\<rparr>);
          code = (case out of Resolved r \<Rightarrow> resp_status r | Rejected _ \<Rightarrow> lastRequestStatusCode s)
      in (case tryBlock A out of
            Inr parsedProviderResponse \<Rightarrow> (Inr parsedProviderResponse, code, w2)
          | Inl err \<Rightarrow> (Inl err, code, emit (handlerCalls err) w2)))"

text \<open>The \<open>catch\<close> clause: \<open>Inl\<close> is the error that leaves the function, \<open>Inr\<close> the
  loop variables for the next pass.\<close>

definition catchPart ::
  "environment \<Rightarrow> retryArgs \<Rightarrow> int \<Rightarrow> loopState \<Rightarrow> int \<Rightarrow> js_error \<Rightarrow> world \<Rightarrow>
     (js_error + loopState) \<times> world" where
  "catchPart E A timeAtFirstRequest s code err w3 =
     (let n = retries s + 1;
          retryContext = \<lparr>attemptNumber = n, error = err,
             totalElapsedTime = clock E (clock_reads w3) - timeAtFirstRequest,
             lastAttemptTimeStamp = ls_lastAttemptTimeStamp s,
             retryDelay = lastRetryDelay s,
             rc_maxRetries = a_maxRetries A,
             rc_previousFetchData = a_previousFetchData A\<rparr>;
          currentTimeDelay = a_backOffStrategy A n retryContext;
          retryNeeded = a_retryOn A err code;
          w4 = emit [BackOffStrategyCall n retryContext, RetryOnCall err code]
                 (w3\<lparr>clock_reads := Suc (clock_reads w3)\<rparr>)
      in (case (if \<not> retryNeeded
                then throwError (Caught err) (Some (a_onErrorInResponse A)) None True
                else Inr ()) of
            Inl e \<Rightarrow> (Inl e, emit (handlerCalls e) w4)
          | Inr _ \<Rightarrow>
              let w5 = emit (case a_onRetry A of Some f \<Rightarrow> [OnRetryCall f retryContext] | None \<Rightarrow> []) w4;
                  currentTimeStamp = clock E (clock_reads w5);
                  w6 = emit [Delay currentTimeDelay] (w5\<lparr>clock_reads := Suc (clock_reads w5)\<rparr>)
              in (Inr (s\<lparr>retries := n, lastRetryDelay := currentTimeDelay,
                         ls_lastAttemptTimeStamp := currentTimeStamp,
                         lastRequestStatusCode := code\<rparr>), w6)))"

function waitAndRetryLoop ::
  "environment \<Rightarrow> retryArgs \<Rightarrow> int \<Rightarrow> loopState \<Rightarrow> world \<Rightarrow> (js_error + jsval) \<times> world" where
  "waitAndRetryLoop E A timeAtFirstRequest s w =
     (if retries s < a_maxRetries A then
        (case tryPart E A s w of
           (Inr parsedProviderResponse, code, w2) \<Rightarrow> (Inr parsedProviderResponse, w2)
         | (Inl err, code, w3) \<Rightarrow>
             (case catchPart E A timeAtFirstRequest s code err w3 of
                (Inl e, w4) \<Rightarrow> (Inl e, w4)
              | (Inr s', w6) \<Rightarrow> waitAndRetryLoop E A timeAtFirstRequest s' w6))
      else (Inr maxRetriesReached, w))"
  by pat_completeness auto
termination
  apply (relation "measure (\<lambda>(E, A, t, s, w). nat (a_maxRetries A - retries s))")
   apply simp
  apply (auto simp: catchPart_def Let_def split: sum.splits if_splits)
  done

declare waitAndRetryLoop.simps [simp del]

definition waitAndRetryRequest ::
  "environment \<Rightarrow> retryArgs \<Rightarrow> world \<Rightarrow> (js_error + jsval) \<times> world" where
  "waitAndRetryRequest E A w =
     (let timeAtFirstRequest = clock E (clock_reads w)
      in waitAndRetryLoop E A timeAtFirstRequest
           \<lparr>retries = 0, lastRetryDelay = 0, ls_lastAttemptTimeStamp = timeAtFirstRequest,
            lastRequestStatusCode = 0\<rparr>
           (w\<lparr>clock_reads := Suc (clock_reads w)\<rparr>))"


section \<open>Encoding the request body and the URL parameters\<close>

definition encodeBody ::
  "environment \<Rightarrow> jsval \<Rightarrow> jsstring \<Rightarrow> errorHandlerType \<Rightarrow> js_error + jsval" where
  "encodeBody E body bodyEncodingFormat onError =
     (if bodyEncodingFormat = js ''json'' then Inr (JSON_stringify body)
      else if bodyEncodingFormat = js ''url'' then Inr (JStr (urlSearchParams E body))
      else if bodyEncodingFormat = js ''text'' \<and> js_typeof body = TString then Inr body
      else bindE
        (throwError (Msg (js ''Invalid body encoding format specified'')) (Some onError)
           (Some (js ''The bodyEncodingFormat field have either one from 'json', 'url' or 'text' as its value''))
           True)
        (\<lambda>_. Inr (JStr [])))"


section \<open>The value resolver\<close>

text \<open>
  A parameter specification is a literal string, an array of path segments, a function,
  or an object \<open>{this, generate}\<close> that asks for library functions; any other value is
  logged and skipped. A function receives \<open>(paramsList, requestParamsTillNow,
  previousFetchData, currentFetchData)\<close>, a generator the library functions as well; both
  may throw. Library functions are passed by name.
\<close>

datatype paramSpec =
    StaticParam jsstring
  | FromPreviousFetches "jsstring list"
  | GenerateFunction "jsobj \<Rightarrow> jsobj \<Rightarrow> jsobj \<Rightarrow> jsval \<Rightarrow> js_error + jsval"
  | GenerateProperty "jsstring list"
      "jsobj \<Rightarrow> (jsstring \<times> jsstring) list \<Rightarrow> jsobj \<Rightarrow> jsobj \<Rightarrow> jsval \<Rightarrow> js_error + jsval"
  | InvalidParam

type_synonym requestParamsType = "(jsstring \<times> paramSpec) list"

definition removeNestedObjects :: "jsobj \<Rightarrow> jsobj" where
  "removeNestedObjects obj =
     foldl (\<lambda>finalObj (key, value).
              if js_typeof value \<noteq> TObject then obj_set finalObj key value else finalObj)
       [] obj"

text \<open>The table of \<open>getRequiredFunctions\<close>: the name asked for and the function it
  stands for (\<open>getSignature\<close> is the variant without crypto on the client).\<close>

definition libraryFunctions :: "bool \<Rightarrow> (jsstring \<times> jsstring) list" where
  "libraryFunctions isServer =
     (js ''getSignature'', if isServer then js ''getSignature'' else js ''getSignatureWithoutCrypto'')
     # map (\<lambda>n. (js n, js n))
         [''getNonce'', ''getTimeStamp'', ''parseToken'', ''constructOAuthData'', ''baseString'',
          ''baseUrl'', ''mergeObjects'', ''parameterString'', ''decodeQueryParams'', ''sortObject'',
          ''signingKey'', ''pE'', ''convertToUrlParams'', ''convertStringsToObject'', ''cleanObject'',
          ''createFormWithParams'', ''decodeAndGetParams'', ''decodeAllURIComponents'', ''getConfig'']"

text \<open>\<open>cfgHandler\<close> is \<open>getConfig().globalErrorHandler\<close>.\<close>

fun getRequiredFunctions ::
  "errorHandlerType option \<Rightarrow> jsstring list \<Rightarrow> bool \<Rightarrow> (jsstring \<times> jsstring) list \<Rightarrow>
     js_error + (jsstring \<times> jsstring) list" where
  "getRequiredFunctions cfgHandler [] isServer functionsToReturn = Inr functionsToReturn"
| "getRequiredFunctions cfgHandler (functionName # rest) isServer functionsToReturn =
     (case map_of (libraryFunctions isServer) functionName of
        Some f \<Rightarrow> getRequiredFunctions cfgHandler rest isServer
                    (functionsToReturn @ [(functionName, f)])
      | None \<Rightarrow>
          (case throwError (Msg (js ''Function not found'')) cfgHandler None True of
             Inl e \<Rightarrow> Inl e
           | Inr _ \<Rightarrow> getRequiredFunctions cfgHandler rest isServer functionsToReturn))"

text \<open>\<open>value[i]\<close> on the array of segments, and the property key that a segment (or
  \<open>undefined\<close>) is converted to.\<close>

definition segment :: "jsstring list \<Rightarrow> nat \<Rightarrow> jsval" where
  "segment value i = (if i < length value then JStr (value ! i) else JUndefined)"

fun propertyKey :: "jsval \<Rightarrow> jsstring" where
  "propertyKey (JStr s) = s"
| "propertyKey v = js ''undefined''"

text \<open>\<open>previousFetchData[value[0]][value[1]]\<close>\<close>

definition ledgerHalf :: "jsobj \<Rightarrow> jsstring list \<Rightarrow> js_error + jsval" where
  "ledgerHalf previousFetchData value =
     bindE (js_get (JObj previousFetchData) (propertyKey (segment value 0)))
       (\<lambda>fetchRecord. js_get fetchRecord (propertyKey (segment value 1)))"

text \<open>The loop \<open>for (const v of value)\<close> with its \<open>try\<close>/\<open>catch\<close>: every element of
  the array is looked up in turn, starting from \<open>reqProperty\<close>. The message of the
  error ends with the text of \<open>reqProperty\<close> and of the caught error, whose wording
  belongs to the engine; that tail is left out.\<close>

fun walkSegments :: "errorHandlerType \<Rightarrow> jsval \<Rightarrow> jsstring list \<Rightarrow> js_error + jsval" where
  "walkSegments errorHandler reqProperty [] = Inr reqProperty"
| "walkSegments errorHandler reqProperty (v # vs) =
     (case js_get reqProperty v of
        Inr next \<Rightarrow> walkSegments errorHandler next vs
      | Inl _ \<Rightarrow>
          (case throwError (Msg (js ''Parameter '' @ v @ js '' not found in previous fetches: ''))
                  (Some errorHandler) None True of
             Inl e \<Rightarrow> Inl e
           | Inr _ \<Rightarrow> walkSegments errorHandler reqProperty vs))"

text \<open>The branch \<open>Array.isArray(value)\<close>: \<open>Some\<close> is the value bound to the key.\<close>

definition resolveReference ::
  "errorHandlerType \<Rightarrow> jsobj \<Rightarrow> jsobj option \<Rightarrow> jsstring list \<Rightarrow> js_error + jsval option" where
  "resolveReference errorHandler previousFetchData specificParser value =
     bindE (if length value < 2 \<and> specificParser = None
            then throwError
                   (Msg (js ''Too less parameters given to access the previous request or response. minimum 2 are required''))
                   (Some errorHandler)
                   (Some (js ''The first parameter should always be the name of the fetch operation (url by default) and the second parameter should be either 'response' or 'request'' @ [39]))
                   True
            else Inr ())
       (\<lambda>_. bindE (case specificParser of
                     Some sp \<Rightarrow> Inr (JObj sp)
                   | None \<Rightarrow>
                       if segment value 1 = JStr (js ''request'') \<or> segment value 1 = JStr (js ''response'')
                       then ledgerHalf previousFetchData value
                       else Inr JNull)
         (\<lambda>start. bindE (if \<not> truthy start
                         then throwError
                                (Msg (js ''The second Parameter of the array in the fromPreviousFetches should always be either 'request' or 'response'' @ [39]))
                                (Some errorHandler) None True
                         else Inr ())
           (\<lambda>_. bindE (walkSegments errorHandler start value)
             (\<lambda>reqProperty.
                if truthy reqProperty then Inr (Some reqProperty)
                else bindE (ledgerHalf previousFetchData value)
                  (\<lambda>_. bindE (throwError (Msg (js ''Invalid key Found'')) (Some errorHandler)
                                (Some (js ''Unknown Error occurred please check the array once again'')) True)
                    (\<lambda>_. Inr None))))))"

text \<open>The result of a function or a generator must be truthy.\<close>

definition requireValue :: "errorHandlerType \<Rightarrow> jsval \<Rightarrow> js_error + jsval option" where
  "requireValue errorHandler val =
     bindE (if \<not> truthy val
            then throwError (Msg (js ''Function returned nothing'')) (Some errorHandler) None True
            else Inr ())
       (\<lambda>_. Inr (Some val))"

text \<open>One pass of the loop \<open>for (let key in params)\<close>: what is bound to the key, if
  anything.\<close>

definition resolveParam ::
  "errorHandlerType option \<Rightarrow> bool \<Rightarrow> jsobj \<Rightarrow> jsobj \<Rightarrow> jsval \<Rightarrow> errorHandlerType \<Rightarrow>
     jsobj option \<Rightarrow> jsobj \<Rightarrow> paramSpec \<Rightarrow> js_error + jsval option" where
  "resolveParam cfgHandler isServer givenParams previousFetchData currentFetchData errorHandler
       specificParser finalUrlParams value =
     (case value of
        StaticParam s \<Rightarrow> Inr (Some (JStr s))
      | FromPreviousFetches segments \<Rightarrow>
          resolveReference errorHandler previousFetchData specificParser segments
      | GenerateFunction f \<Rightarrow>
          bindE (f givenParams finalUrlParams previousFetchData currentFetchData)
            (requireValue errorHandler)
      | GenerateProperty this generate \<Rightarrow>
          bindE (getRequiredFunctions cfgHandler this isServer [])
            (\<lambda>functionsToUse.
               bindE (generate givenParams functionsToUse finalUrlParams previousFetchData
                        currentFetchData)
                 (requireValue errorHandler))
      | InvalidParam \<Rightarrow> Inr None)"

fun resolveAll ::
  "errorHandlerType option \<Rightarrow> bool \<Rightarrow> jsobj \<Rightarrow> jsobj \<Rightarrow> jsval \<Rightarrow> errorHandlerType \<Rightarrow>
     jsobj option \<Rightarrow> requestParamsType \<Rightarrow> jsobj \<Rightarrow> js_error + jsobj" where
  "resolveAll cfgHandler isServer givenParams previousFetchData currentFetchData errorHandler
       specificParser [] finalUrlParams = Inr finalUrlParams"
| "resolveAll cfgHandler isServer givenParams previousFetchData currentFetchData errorHandler
       specificParser ((key, value) # rest) finalUrlParams =
     (case resolveParam cfgHandler isServer givenParams previousFetchData currentFetchData
             errorHandler specificParser finalUrlParams value of
        Inl e \<Rightarrow> Inl e
      | Inr bound \<Rightarrow>
          resolveAll cfgHandler isServer givenParams previousFetchData currentFetchData
            errorHandler specificParser rest
            (case bound of Some v \<Rightarrow> obj_set finalUrlParams key v | None \<Rightarrow> finalUrlParams))"

definition getAllParams ::
  "errorHandlerType option \<Rightarrow> bool \<Rightarrow> jsstring \<Rightarrow> jsobj \<Rightarrow> requestParamsType \<Rightarrow> jsobj \<Rightarrow> jsval \<Rightarrow>
     errorHandlerType \<Rightarrow> jsobj option \<Rightarrow> js_error + jsobj" where
  "getAllParams cfgHandler isServer paramName givenParams params previousFetchData
       currentFetchData errorHandler specificParser =
     bindE (resolveAll cfgHandler isServer givenParams previousFetchData currentFetchData
              errorHandler specificParser params [])
       (\<lambda>finalUrlParams. Inr (removeNestedObjects finalUrlParams))"

section \<open>Projecting the response\<close>

datatype toReturnSpec = All | Path "jsstring list"

text \<open>
  The access \<open>reqProperty[val]\<close> on a node. \<open>undefined\<close> and \<open>null\<close> have no
  properties (\<open>TypeError\<close>). A data value has its own properties: those of an object, the
  length and the indices of an array or a string; any other key is looked up on the
  prototype chain. The properties of a foreign value are the engine's.
\<close>

fun own_property :: "jsval \<Rightarrow> jsstring \<Rightarrow> jsval option" where
  "own_property (JStr s) k =
     (if k = js ''length'' then Some (JNum (int (length s)))
      else case array_index k of
             Some i \<Rightarrow> if i < length s then Some (JStr [s ! i]) else None
           | None \<Rightarrow> None)"
| "own_property (JArr xs) k =
     (if k = js ''length'' then Some (JNum (int (length xs)))
      else case array_index k of
             Some i \<Rightarrow> if i < length xs then Some (xs ! i) else None
           | None \<Rightarrow> None)"
| "own_property (JObj kvs) k = map_of kvs k"
| "own_property v k = None"

fun js_lookup :: "environment \<Rightarrow> node \<Rightarrow> jsstring \<Rightarrow> js_error + node" where
  "js_lookup E (Foreign n) k = foreignGet E n k"
| "js_lookup E (Data v) k =
     (if v = JUndefined \<or> v = JNull then Inl TypeError
      else case own_property v k of
             Some x \<Rightarrow> Inr (Data x)
           | None \<Rightarrow> inherited E v k)"

text \<open>\<open>typeof reqProperty === "string" || typeof reqProperty === "undefined"\<close>\<close>

fun stringOrUndefined :: "node \<Rightarrow> bool" where
  "stringOrUndefined (Data v) = (js_typeof v = TString \<or> js_typeof v = TUndefined)"
| "stringOrUndefined (Foreign n) = False"

text \<open>The inner \<open>forEach\<close>: a \<open>return\<close> after \<open>throwError\<close> would only end the
  callback of that segment. (The argument \<open>JSON.stringify(reqProperty)\<close> of the log call
  is evaluated at every segment; it is taken to return.)\<close>

fun walkResponse ::
  "environment \<Rightarrow> errorHandlerType \<Rightarrow> node \<Rightarrow> jsstring list \<Rightarrow> js_error + node" where
  "walkResponse E onErrorInResponse reqProperty [] = Inr reqProperty"
| "walkResponse E onErrorInResponse reqProperty (val # vals) =
     (if stringOrUndefined reqProperty
      then (case throwError
                   (Msg (js ''Error while trying to access the response property, '' @ val))
                   (Some onErrorInResponse) None True of
              Inl e \<Rightarrow> Inl e
            | Inr _ \<Rightarrow> walkResponse E onErrorInResponse reqProperty vals)
      else (case js_lookup E reqProperty val of
              Inr next \<Rightarrow> walkResponse E onErrorInResponse next vals
            | Inl _ \<Rightarrow>
                (case throwError
                        (Msg (js ''Error while trying to access the response property, '' @ val))
                        (Some onErrorInResponse) None True of
                   Inl e \<Rightarrow> Inl e
                 | Inr _ \<Rightarrow> walkResponse E onErrorInResponse reqProperty vals)))"

fun storeValues ::
  "environment \<Rightarrow> (jsstring \<times> toReturnSpec) list \<Rightarrow> jsval \<Rightarrow> errorHandlerType \<Rightarrow>
     accumulatorType \<Rightarrow> js_error + accumulatorType" where
  "storeValues E [] providerResponse onErrorInResponse toReturnObject = Inr toReturnObject"
| "storeValues E ((key, value) # rest) providerResponse onErrorInResponse toReturnObject =
     (case (case value of
              All \<Rightarrow> Inr (Data providerResponse)
            | Path segments \<Rightarrow>
                walkResponse E onErrorInResponse (Data providerResponse) segments) of
        Inl e \<Rightarrow> Inl e
      | Inr reqProperty \<Rightarrow>
          storeValues E rest providerResponse onErrorInResponse
            (obj_set toReturnObject key reqProperty))"

definition storeValuesToReturn ::
  "environment \<Rightarrow> (jsstring \<times> toReturnSpec) list \<Rightarrow> jsval \<Rightarrow> errorHandlerType \<Rightarrow>
     js_error + accumulatorType" where
  "storeValuesToReturn E returnAfterResponse providerResponse onErrorInResponse =
     storeValues E returnAfterResponse providerResponse onErrorInResponse []"

text \<open>\<open>JSON.stringify\<close> of the Result Accumulator, an object whose values are nodes.\<close>

definition SerializeNode :: "environment \<Rightarrow> node \<Rightarrow> jsstring option" where
  "SerializeNode E nd = (case nd of Data v \<Rightarrow> SerializeJSONProperty v | Foreign n \<Rightarrow> foreignJSON E n)"

definition accumulatorText :: "environment \<Rightarrow> accumulatorType \<Rightarrow> jsstring" where
  "accumulatorText E acc =
     123 # join_commas
        (concat (map (\<lambda>(k, v). case SerializeNode E v of None \<Rightarrow> []
                   | Some t \<Rightarrow> [QuoteJSONString k @ 58 # t]) acc)) @ [125]"


section \<open>The step descriptor and \<open>initParams\<close>\<close>

text \<open>An optional field of the configuration is an \<open>option\<close>; \<open>a ?? b\<close> takes \<open>b\<close>
  when the field is absent, \<open>c ? a : b\<close> on a number also when it is zero.\<close>

record retriesType =
  r_maxRetries :: "int option"
  r_backOffStrategy :: "(int \<Rightarrow> retryContextType \<Rightarrow> int) option"
  r_retryOn :: "(js_error \<Rightarrow> int \<Rightarrow> bool) option"
  r_onRetry :: "callback option"

datatype bodySpec = RawBody jsstring | ParamBody requestParamsType

record requestType =
  rq_method :: jsstring
  rq_percentEncode :: "bool option"
  rq_urlParams :: "requestParamsType option"
  rq_headers :: "requestParamsType option"
  rq_body :: "bodySpec option"
  rq_bodyEncodingFormat :: "jsstring option"
  rq_timeout :: "int option"
  rq_onError :: "errorHandlerType option"
  rq_retries :: "retriesType option"

record responseType =
  rs_parseType :: "jsstring option"
  rs_validate :: "(jsobj \<Rightarrow> bool) list option"
  rs_toReturn :: "(jsstring \<times> toReturnSpec) list option"
  rs_onError :: "errorHandlerType option"

record UrlType =
  u_name :: "jsstring option"
  u_test :: "bool option"
  u_proxy :: "jsstring option"
  u_beforeRedirect :: "callback option"
  u_request :: requestType
  u_response :: responseType

type_synonym redirectUrlsObjectType = "(jsstring \<times> UrlType) list"

record observingFuncsType =
  o_onError :: errorHandlerType
  o_onRequestStart :: "callback option"
  o_onRequestEnd :: "callback option"
  o_onRetry :: "callback option"

record currentRequestDataType =
  cr_method :: jsstring
  cr_url :: jsstring
  cr_urlParams :: jsobj
  cr_headers :: jsobj
  cr_body :: jsval

record currentFetchDataType =
  cf_request :: currentRequestDataType
  cf_response :: jsval

record initializedParamsType =
  p_details :: UrlType
  p_currentFetchData :: currentFetchDataType
  p_name :: jsstring
  p_proxy :: "jsstring option"
  p_beforeRedirect :: "callback option"
  p_method :: jsstring
  p_percentEncode :: bool
  p_onError :: errorHandlerType
  p_bodyEncodingFormat :: jsstring
  p_timeout :: int
  p_maxRetries :: int
  p_backOffStrategy :: "int \<Rightarrow> retryContextType \<Rightarrow> int"
  p_retryOn :: "js_error \<Rightarrow> int \<Rightarrow> bool"
  p_onRetry :: "callback option"
  p_urlParams :: jsobj
  p_headers :: jsobj
  p_bodyParams :: jsval
  p_responseParseType :: jsstring
  p_validateResponse :: "(jsobj \<Rightarrow> bool) list"
  p_returnAfterResponse :: "(jsstring \<times> toReturnSpec) list"
  p_onErrorInResponse :: errorHandlerType

definition orElse :: "'a option \<Rightarrow> 'a \<Rightarrow> 'a" where
  "orElse x d = (case x of Some v \<Rightarrow> v | None \<Rightarrow> d)"

text \<open>The Fetch Record as the object it is: \<open>{request: {method, url, urlParams, headers,
  body}, response}\<close>.\<close>

definition fetchDataValue :: "currentFetchDataType \<Rightarrow> jsval" where
  "fetchDataValue currentFetchData =
     JObj [(js ''request'',
            JObj [(js ''method'', JStr (cr_method (cf_request currentFetchData))),
                  (js ''url'', JStr (cr_url (cf_request currentFetchData))),
                  (js ''urlParams'', JObj (cr_urlParams (cf_request currentFetchData))),
                  (js ''headers'', JObj (cr_headers (cf_request currentFetchData))),
                  (js ''body'', cr_body (cf_request currentFetchData))]),
           (js ''response'', cf_response currentFetchData)]"

text \<open>\<open>request.retries ?? {}\<close>\<close>

definition retriesObjectOf :: "requestType \<Rightarrow> retriesType" where
  "retriesObjectOf request =
     orElse (rq_retries request)
       \<lparr>r_maxRetries = None, r_backOffStrategy = None, r_retryOn = None, r_onRetry = None\<rparr>"

definition initParams ::
  "errorHandlerType option \<Rightarrow> bool \<Rightarrow> redirectUrlsObjectType \<Rightarrow> jsstring \<Rightarrow> observingFuncsType \<Rightarrow>
     int \<Rightarrow> jsobj \<Rightarrow> jsobj \<Rightarrow> jsobj option \<Rightarrow> js_error + initializedParamsType" where
  "initParams cfgHandler isServer reqUrls url observingFuncs globalTimeout givenParams
       previousFetchData specificParser =
     (case map_of reqUrls url of
        None \<Rightarrow> Inl TypeError
      | Some details \<Rightarrow>
          let currentFetchData = \<lparr>cf_request = \<lparr>cr_method = [], cr_url = [], cr_urlParams = [],
                  cr_headers = [], cr_body = JObj []\<rparr>, cf_response = JObj []\<rparr>;
              name = orElse (u_name details) url;
              request = u_request details;
              onError = orElse (rq_onError request) (o_onError observingFuncs);
              timeout = orElse (rq_timeout request) globalTimeout;
              retriesObject = retriesObjectOf request;
              maxRetries = (case r_maxRetries retriesObject of
                              Some n \<Rightarrow> if n \<noteq> 0 then n else 2 | None \<Rightarrow> 2);
              backOffStrategy = orElse (r_backOffStrategy retriesObject) (\<lambda>attempt retryContext. timeout);
              retryOn = orElse (r_retryOn retriesObject)
                          (\<lambda>error statusCode. statusCode \<in> set [429, 503]);
              onRetry = (case r_onRetry retriesObject of
                           Some f \<Rightarrow> Some f | None \<Rightarrow> o_onRetry observingFuncs)
          in bindE (getAllParams cfgHandler isServer (js ''urlParams'') givenParams
                      (orElse (rq_urlParams request) []) previousFetchData
                      (fetchDataValue currentFetchData) onError specificParser)
               (\<lambda>urlParams.
                  bindE (getAllParams cfgHandler isServer (js ''headers'') givenParams
                           (orElse (rq_headers request) []) previousFetchData
                           (fetchDataValue currentFetchData) onError specificParser)
                    (\<lambda>headers.
                       bindE (case rq_body request of
                                Some (RawBody s) \<Rightarrow> Inr (JStr s)
                              | Some (ParamBody b) \<Rightarrow>
                                  map_sum id JObj
                                    (getAllParams cfgHandler isServer (js ''body'') givenParams b
                                       previousFetchData (fetchDataValue currentFetchData) onError
                                       specificParser)
                              | None \<Rightarrow>
                                  map_sum id JObj
                                    (getAllParams cfgHandler isServer (js ''body'') givenParams []
                                       previousFetchData (fetchDataValue currentFetchData) onError
                                       specificParser))
                         (\<lambda>bodyParams.
                            let response = u_response details
                            in Inr \<lparr>p_details = details,
                                    p_currentFetchData = currentFetchData,
                                    p_name = name,
                                    p_proxy = u_proxy details,
                                    p_beforeRedirect = u_beforeRedirect details,
                                    p_method = rq_method request,
                                    p_percentEncode = orElse (rq_percentEncode request) False,
                                    p_onError = onError,
                                    p_bodyEncodingFormat =
                                      orElse (rq_bodyEncodingFormat request) (js ''json''),
                                    p_timeout = timeout,
                                    p_maxRetries = maxRetries,
                                    p_backOffStrategy = backOffStrategy,
                                    p_retryOn = retryOn,
                                    p_onRetry = onRetry,
                                    p_urlParams = urlParams,
                                    p_headers = headers,
                                    p_bodyParams = bodyParams,
                                    p_responseParseType = orElse (rs_parseType response) (js ''json''),
                                    p_validateResponse = orElse (rs_validate response) [],
                                    p_returnAfterResponse = orElse (rs_toReturn response) [],
                                    p_onErrorInResponse = orElse (rs_onError response) onError\<rparr>))))"

section \<open>Base64: \<open>btoa\<close>\<close>

text \<open>\<open>btoa\<close> accepts code units up to 255 only and encodes three of them as four
  characters of the alphabet \<open>A-Z a-z 0-9 + /\<close>, padding with \<open>=\<close> (61).\<close>

definition b64_char :: "nat \<Rightarrow> nat" where
  "b64_char n =
     (if n < 26 then 65 + n else if n < 52 then 71 + n else if n < 62 then n - 4
      else if n = 62 then 43 else 47)"

fun b64_encode :: "jsstring \<Rightarrow> jsstring" where
  "b64_encode [] = []"
| "b64_encode [a] = [b64_char (a div 4), b64_char ((a mod 4) * 16), 61, 61]"
| "b64_encode [a, b] =
     [b64_char (a div 4), b64_char ((a mod 4) * 16 + b div 16), b64_char ((b mod 16) * 4), 61]"
| "b64_encode (a # b # c # rest) =
     [b64_char (a div 4), b64_char ((a mod 4) * 16 + b div 16),
      b64_char ((b mod 16) * 4 + c div 64), b64_char (c mod 64)] @ b64_encode rest"

definition btoa :: "jsstring \<Rightarrow> js_error + jsstring" where
  "btoa s = (if list_all (\<lambda>c. c \<le> 255) s then Inr (b64_encode s) else Inl InvalidCharacterError)"

definition encodeToBase64 :: "jsstring \<Rightarrow> js_error + jsstring" where
  "encodeToBase64 text = btoa text"

section \<open>The configuration and the global parameters\<close>










section \<open>The pipeline runner\<close>








section \<open>The redirect bridge and the client side\<close>

text \<open>\<open>JSON.stringify\<close> of an object is a string; \<open>text_of\<close> is that string.\<close>

definition setItem :: "jsstring \<Rightarrow> jsstring \<Rightarrow> world \<Rightarrow> world" where
  "setItem key v w = w\<lparr>localStorage := (localStorage w)(key \<mapsto> v)\<rparr>"

text \<open>The fields of the form: \<open>{...urlParams, ...(typeof body === "string" ? {body} :
  body)}\<close>.\<close>

definition formFields :: "jsobj \<Rightarrow> jsval \<Rightarrow> jsobj" where
  "formFields urlParams body =
     obj_spread urlParams
       (case body of JStr s \<Rightarrow> [(js ''body'', JStr s)] | JObj props \<Rightarrow> props | _ \<Rightarrow> [])"

text \<open>\<open>if (requestMethod === "POST") params.currentFetchData.request.body =
  params.bodyParams\<close>\<close>

definition withPostBody :: "jsstring \<Rightarrow> initializedParamsType \<Rightarrow> currentFetchDataType" where
  "withPostBody requestMethod params =
     (if requestMethod = js ''POST''
      then (p_currentFetchData params)
             \<lparr>cf_request := (cf_request (p_currentFetchData params))
                               \<lparr>cr_body := p_bodyParams params\<rparr>\<rparr>
      else p_currentFetchData params)"

definition redirectOnCustomProviderButtonClick ::
  "environment \<Rightarrow> jsstring \<Rightarrow> initializedParamsType \<Rightarrow> jsstring \<Rightarrow> jsobj \<Rightarrow> jsstring \<Rightarrow>
     jsstring \<Rightarrow> accumulatorType \<Rightarrow> bool \<Rightarrow> jsstring option \<Rightarrow> world \<Rightarrow>
     (js_error + unit) \<times> world" where
  "redirectOnCustomProviderButtonClick E requestMethod params url previousFetchData storeFetchesAs
       storeToReturnAs toReturnObject storeState state w =
     (let currentFetchData = withPostBody requestMethod params;
          redirectForm = FormAppended
             (formFields (p_urlParams params) (cr_body (cf_request currentFetchData)))
             url (cr_method (cf_request currentFetchData));
          w1 = emit (case p_beforeRedirect params of
                       Some f \<Rightarrow> [BeforeRedirectCall f previousFetchData
                                    (fetchDataValue currentFetchData)]
                     | None \<Rightarrow> []) w;
          newPreviousFetchData =
            obj_set previousFetchData (p_name params) (fetchDataValue currentFetchData)
      in case encodeToBase64 (text_of (JObj newPreviousFetchData)) of
           Inl e \<Rightarrow> (Inl e, w1)
         | Inr encodedFetches \<Rightarrow>
             let w2 = setItem storeFetchesAs encodedFetches w1
             in (case encodeToBase64 (accumulatorText E toReturnObject) of
                   Inl e \<Rightarrow> (Inl e, w2)
                 | Inr encodedToReturn \<Rightarrow>
                     let w3 = setItem storeToReturnAs encodedToReturn w2
                     in (case (case state of
                                 Some s \<Rightarrow> if storeState \<and> s \<noteq> []
                                            then map_sum id Some (encodeToBase64 s) else Inr None
                               | None \<Rightarrow> Inr None) of
                           Inl e \<Rightarrow> (Inl e, w3)
                         | Inr encodedState \<Rightarrow>
                             let w4 = (case encodedState of
                                         Some enc \<Rightarrow> setItem (js ''state'') enc w3
                                       | None \<Rightarrow> w3)
                             in (Inr (),
                                 emit (redirectForm #
                                       (if u_test (p_details params) = Some True then []
                                        else [FormSubmitted])) w4))))"








text \<open>
  Following the specification: the value reached from the response by taking each segment
  of a path as a property name in turn, \<open>response[s1][s2]...\<close>, and the paths on which some
  segment is looked up in a string or in \<open>undefined\<close>.
\<close>

fun nestedLookup :: "environment \<Rightarrow> node \<Rightarrow> jsstring list \<Rightarrow> js_error + node" where
  "nestedLookup E nd [] = Inr nd"
| "nestedLookup E nd (s # ss) =
     (case js_lookup E nd s of Inl e \<Rightarrow> Inl e | Inr next \<Rightarrow> nestedLookup E next ss)"

fun deadEnd :: "environment \<Rightarrow> node \<Rightarrow> jsstring list \<Rightarrow> bool" where
  "deadEnd E nd [] = False"
| "deadEnd E nd (s # ss) =
     (stringOrUndefined nd \<or>
      (case js_lookup E nd s of Inl e \<Rightarrow> False | Inr next \<Rightarrow> deadEnd E next ss))"

text \<open>What one entry of the \<open>toReturn\<close> table yields.\<close>

definition projection ::
  "environment \<Rightarrow> errorHandlerType \<Rightarrow> jsval \<Rightarrow> toReturnSpec \<Rightarrow> js_error + node" where
  "projection E h resp sp =
     (case sp of All \<Rightarrow> Inr (Data resp) | Path segs \<Rightarrow> walkResponse E h (Data resp) segs)"

section \<open>Concrete inputs\<close>

text \<open>A server that answers every request with status 500, an empty world, and a call of
  the request executor with three attempts that retries on every failure.\<close>

definition permanent500 :: environment where
  "permanent500 =
     \<lparr>net = (\<lambda>k. Resolved \<lparr>resp_status = 500, resp_json = Inr JNull, resp_text = []\<rparr>),
      clock = (\<lambda>k. int k),
      urlSearchParams = (\<lambda>v. []),
      encodeURIComponent = (\<lambda>v. []),
      pE = (\<lambda>v. []),
      inherited = (\<lambda>v k. Inr (Data JUndefined)),
      foreignGet = (\<lambda>n k. Inr (Data JUndefined)),
      foreignJSON = (\<lambda>n. None)\<rparr>"

definition world0 :: world where
  "world0 = \<lparr>fetches = 0, clock_reads = 0, trace = [], localStorage = Map.empty\<rparr>"

definition retryAlways :: retryArgs where
  "retryAlways =
     \<lparr>a_requestUrl = js ''https://provider.example/token'',
      a_requestMethod = js ''POST'',
      a_requestHeaders = [],
      a_requestBody = JStr (js ''{}''),
      a_parseRequest = parseRequest,
      a_timeout = 5000,
      a_onErrorInResponse = 1,
      a_validateResponse = [],
      a_previousFetchData = [],
      a_maxRetries = 3,
      a_backOffStrategy = (\<lambda>attempt retryContext. 5000),
      a_onRetry = Some 2,
      a_retryOn = (\<lambda>error statusCode. True),
      a_onRequestStart = Some 3,
      a_currentFetchData = JObj [],
      a_responseParseType = js ''json'',
      a_proxy = None\<rparr>"

text \<open>The Ledger \<open>{step1: {request: {}, response: {token: "T"}}}\<close>, the response
  \<open>{a: {b: "x"}}\<close>, and a parameter map with a literal and a function that returns an
  object.\<close>

definition ledger1 :: jsobj where
  "ledger1 =
     [(js ''step1'', JObj [(js ''request'', JObj []),
                          (js ''response'', JObj [(js ''token'', JStr (js ''T''))])])]"

definition responseAB :: jsval where
  "responseAB = JObj [(js ''a'', JObj [(js ''b'', JStr (js ''x''))])]"

definition mixedParams :: requestParamsType where
  "mixedParams =
     [(js ''client_id'', StaticParam (js ''abc'')),
      (js ''nested'', GenerateFunction (\<lambda>paramsList requestParamsTillNow previousFetchData
          currentFetchData. Inr (JObj [(js ''k'', JStr (js ''v''))])))]"

text \<open>A step that gives a method only: no timeout, no retry policy.\<close>

definition plainStep :: UrlType where
  "plainStep =
     \<lparr>u_name = None, u_test = None, u_proxy = None, u_beforeRedirect = None,
      u_request = \<lparr>rq_method = js ''GET'', rq_percentEncode = None, rq_urlParams = None,
         rq_headers = None, rq_body = None, rq_bodyEncodingFormat = None, rq_timeout = None,
         rq_onError = None, rq_retries = None\<rparr>,
      u_response = \<lparr>rs_parseType = None, rs_validate = None, rs_toReturn = None,
         rs_onError = None\<rparr>\<rparr>"

definition observers0 :: observingFuncsType where
  "observers0 = \<lparr>o_onError = 0, o_onRequestStart = None, o_onRequestEnd = None, o_onRetry = None\<rparr>"

text \<open>The parameters of a last step \<open>authorize\<close> with one URL parameter, and a Ledger
  whose first entry holds the response \<open>{name: "\<euro>"}\<close> (U+20AC, code unit 8364).\<close>

definition lastStepParams :: initializedParamsType where
  "lastStepParams =
     \<lparr>p_details = plainStep,
      p_currentFetchData =
        \<lparr>cf_request = \<lparr>cr_method = js ''GET'', cr_url = js ''https://provider.example/authorize?client_id=abc'',
                         cr_urlParams = [(js ''client_id'', JStr (js ''abc''))], cr_headers = [],
                         cr_body = JObj []\<rparr>,
         cf_response = JObj []\<rparr>,
      p_name = js ''authorize'',
      p_proxy = None,
      p_beforeRedirect = None,
      p_method = js ''GET'',
      p_percentEncode = False,
      p_onError = 0,
      p_bodyEncodingFormat = js ''json'',
      p_timeout = 5000,
      p_maxRetries = 2,
      p_backOffStrategy = (\<lambda>attempt retryContext. 5000),
      p_retryOn = (\<lambda>error statusCode. statusCode \<in> set [429, 503]),
      p_onRetry = None,
      p_urlParams = [(js ''client_id'', JStr (js ''abc''))],
      p_headers = [],
      p_bodyParams = JObj [],
      p_responseParseType = js ''json'',
      p_validateResponse = [],
      p_returnAfterResponse = [],
      p_onErrorInResponse = 0\<rparr>"

definition ledgerEuro :: jsobj where
  "ledgerEuro =
     [(js ''profile'', JObj [(js ''request'', JObj []),
                            (js ''response'', JObj [(js ''name'', JStr [8364])])])]"

text \<open>A network that answers every request with status 200 and the JSON body
  \<open>{access_token: "T"}\<close>; and a configuration whose provider has two steps in either
  stage, the first of them named.\<close>

definition alwaysOk :: environment where
  "alwaysOk =
     \<lparr>net = (\<lambda>k. Resolved \<lparr>resp_status = 200,
                              resp_json = Inr (JObj [(js ''access_token'', JStr (js ''T''))]),
                              resp_text = js ''{\"access_token\":\"T\"}''\<rparr>),
      clock = (\<lambda>k. int k),
      urlSearchParams = (\<lambda>v. []),
      encodeURIComponent = (\<lambda>v. []),
      pE = (\<lambda>v. []),
      inherited = (\<lambda>v k. Inr (Data JUndefined)),
      foreignGet = (\<lambda>n k. Inr (Data JUndefined)),
      foreignJSON = (\<lambda>n. None)\<rparr>"



text \<open>An engine in which an object inherits \<open>constructor\<close>, the function \<open>Object\<close>
  (the foreign value 0), whose property \<open>name\<close> is \<open>"Object"\<close>, and nothing else.\<close>

definition objectEngine :: environment where
  "objectEngine =
     permanent500
       \<lparr>inherited := (\<lambda>v k. case v of
                          JObj kvs \<Rightarrow> if k = js ''constructor'' then Inr (Foreign 0)
                                      else Inr (Data JUndefined)
                        | _ \<Rightarrow> Inr (Data JUndefined)),
        foreignGet := (\<lambda>n k. if n = 0 \<and> k = js ''name'' then Inr (Data (JStr (js ''Object'')))
                              else Inr (Data JUndefined))\<rparr>"

text \<open>A network on which every fetch is aborted by the timeout, and the call of the request
  executor above with a retry predicate that rejects every failure.\<close>

definition alwaysAborted :: environment where
  "alwaysAborted = permanent500\<lparr>net := (\<lambda>k. Rejected AbortError)\<rparr>"

definition retryNever :: retryArgs where
  "retryNever = retryAlways\<lparr>a_retryOn := (\<lambda>e c. False)\<rparr>"

text \<open>A Result Accumulator that holds the same string \<open>"\<euro>"\<close>.\<close>

definition accumulatorEuro :: accumulatorType where
  "accumulatorEuro = [(js ''user'', Data (JStr [8364]))]"

section \<open>Properties of the request executor\<close>

lemma tryPart_fetches: "fetches (snd (snd (tryPart E A s w))) = Suc (fetches w)"
  by (simp add: tryPart_def Let_def emit_def split: sum.splits)

lemma tryPart_result: "fst (tryPart E A s w) = tryBlock A (net E (fetches w))"
  by (simp add: tryPart_def Let_def emit_def split: sum.splits)

lemma catchPart_retry:
  "a_retryOn A err code \<Longrightarrow>
   \<exists>s' w'. catchPart E A t s code err w = (Inr s', w') \<and> retries s' = retries s + 1 \<and>
           fetches w' = fetches w"
  by (simp add: catchPart_def Let_def emit_def)

text \<open>When every attempt fails and every failure is retried, the loop runs until the
  counter reaches \<open>maxRetries\<close>, issues one request per pass and returns the payload.\<close>

lemma loop_all_fail:
  assumes fail: "\<forall>k. isl (tryBlock A (net E k))" and always: "\<forall>e c. a_retryOn A e c"
  shows "fst (waitAndRetryLoop E A t s w) = Inr maxRetriesReached \<and>
         fetches (snd (waitAndRetryLoop E A t s w)) = fetches w + nat (a_maxRetries A - retries s)"
proof (induction "nat (a_maxRetries A - retries s)" arbitrary: s w)
  case 0
  then show ?case by (simp add: waitAndRetryLoop.simps)
next
  case (Suc n)
  then have lt: "retries s < a_maxRetries A" by linarith
  obtain r code w3 where tp: "tryPart E A s w = (r, code, w3)"
    by (metis prod_cases3)
  obtain err where err: "r = Inl err"
    using fail tryPart_result[of E A s w] tp by (metis fst_conv isl_def)
  have f3: "fetches w3 = Suc (fetches w)"
    using tryPart_fetches[of E A s w] tp by simp
  obtain s' w' where cp: "catchPart E A t s code err w3 = (Inr s', w')"
      and rs: "retries s' = retries s + 1" and fw: "fetches w' = fetches w3"
    using catchPart_retry always by blast
  have step: "waitAndRetryLoop E A t s w = waitAndRetryLoop E A t s' w'"
    by (subst waitAndRetryLoop.simps) (simp add: lt tp err cp)
  have "n = nat (a_maxRetries A - retries s')" using Suc.hyps(2) rs by linarith
  from Suc.hyps(1)[OF this, of w'] show ?case
    using step rs fw f3 lt by (simp add: nat_diff_distrib)
qed

text \<open>What makes an attempt fail: the fetch is rejected (by the network, or with
  \<open>AbortError\<close> when the timeout fires), the status is not 2xx, the response cannot be
  parsed or the answer of the proxy is not accepted, or a validator rejects.\<close>

lemma runValidators_reject:
  "\<exists>v \<in> set vs. \<not> v ledger \<Longrightarrow>
   runValidators vs ledger h =
     Inl (Thrown (Some h) (Msg (js ''Response failed user validation.''))
            (Some (Msg (js ''Response failed user validation.''))))"
  by (induction vs) (auto simp: throwError_def bindE_def)

lemma runValidators_pass: "\<forall>v \<in> set vs. v ledger \<Longrightarrow> runValidators vs ledger h = Inr ()"
  by (induction vs) auto

lemma tryBlock_rejected: "tryBlock A (Rejected e) = Inl e"
  by (simp add: tryBlock_def)

lemma tryBlock_status:
  "\<not> ok r \<Longrightarrow>
   tryBlock A (Resolved r) =
     Inl (Thrown (Some (a_onErrorInResponse A)) (Msg (js ''Response has some error:{}''))
            (Some (Msg (js ''Response has some error:{}''))))"
  by (simp add: tryBlock_def throwError_def bindE_def)

lemma tryBlock_validator:
  assumes "ok r"
    and "a_parseRequest A r (if proxyInUse A then js ''json'' else a_responseParseType A)
           (a_onErrorInResponse A) = Inr parsed"
    and "proxyUnwrap A parsed = Inr payload"
    and "\<exists>v \<in> set (a_validateResponse A). \<not> v (a_previousFetchData A)"
  shows "tryBlock A (Resolved r) =
           Inl (Thrown (Some (a_onErrorInResponse A)) (Msg (js ''Response failed user validation.''))
                  (Some (Msg (js ''Response failed user validation.''))))"
  using assms(1-3) runValidators_reject[OF assms(4), of "a_onErrorInResponse A"]
  by (simp add: tryBlock_def bindE_def)

lemma tryBlock_fails_iff:
  "isl (tryBlock A out) \<longleftrightarrow>
     (case out of
        Rejected e \<Rightarrow> True
      | Resolved r \<Rightarrow>
          \<not> ok r \<or>
          isl (bindE (a_parseRequest A r (if proxyInUse A then js ''json'' else a_responseParseType A)
                       (a_onErrorInResponse A)) (proxyUnwrap A)) \<or>
          (\<exists>v \<in> set (a_validateResponse A). \<not> v (a_previousFetchData A)))"
proof (cases out)
  case (Rejected e)
  then show ?thesis by (simp add: tryBlock_def)
next
  case (Resolved r)
  show ?thesis
  proof (cases "\<exists>v \<in> set (a_validateResponse A). \<not> v (a_previousFetchData A)")
    case True
    from runValidators_reject[OF this, of "a_onErrorInResponse A"] True show ?thesis
      by (auto simp: Resolved tryBlock_def bindE_def throwError_def split: sum.splits)
  next
    case False
    then have "runValidators (a_validateResponse A) (a_previousFetchData A) (a_onErrorInResponse A)
                 = Inr ()"
      using runValidators_pass by blast
    then show ?thesis using False
      by (auto simp: Resolved tryBlock_def bindE_def throwError_def split: sum.splits)
  qed
qed

text \<open>
  Claim C2. With \<open>maxRetries = 3\<close> and a retry predicate that always returns true, when
  every attempt fails (the fetch is rejected, the status is not 2xx, the response cannot
  be parsed or unwrapped, or a validator rejects), exactly three requests are issued and
  the function returns \<open>{error: "Max Retries Reached"}\<close>; it does not throw.
\<close>

theorem retries_exhausted_returns_payload:
  assumes "a_maxRetries A = 3" and "\<forall>e c. a_retryOn A e c"
    and "\<forall>k. case net E k of
                Rejected e \<Rightarrow> True
              | Resolved r \<Rightarrow>
                  \<not> ok r \<or>
                  isl (bindE (a_parseRequest A r
                                (if proxyInUse A then js ''json'' else a_responseParseType A)
                                (a_onErrorInResponse A)) (proxyUnwrap A)) \<or>
                  (\<exists>v \<in> set (a_validateResponse A). \<not> v (a_previousFetchData A))"
  shows "fst (waitAndRetryRequest E A w) = Inr (JObj [(js ''error'', JStr (js ''Max Retries Reached''))]) \<and>
         fetches (snd (waitAndRetryRequest E A w)) = fetches w + 3"
proof -
  have "\<forall>k. isl (tryBlock A (net E k))" using assms(3) tryBlock_fails_iff by blast
  from loop_all_fail[OF this assms(2)] assms(1) show ?thesis
    by (simp add: waitAndRetryRequest_def Let_def maxRetriesReached_def)
qed

text \<open>Two instances: a server that always answers 500, and a fetch that is always
  aborted.\<close>

theorem retries_exhausted_returns_payload_witness:
  "a_maxRetries retryAlways = 3 \<and> (\<forall>e c. a_retryOn retryAlways e c) \<and>
   (\<forall>k. \<exists>r. net permanent500 k = Resolved r \<and> \<not> ok r) \<and>
   fst (waitAndRetryRequest permanent500 retryAlways world0)
     = Inr (JObj [(js ''error'', JStr (js ''Max Retries Reached''))]) \<and>
   fetches (snd (waitAndRetryRequest permanent500 retryAlways world0)) = 3 \<and>
   (\<forall>k. net alwaysAborted k = Rejected AbortError) \<and>
   fst (waitAndRetryRequest alwaysAborted retryAlways world0)
     = Inr (JObj [(js ''error'', JStr (js ''Max Retries Reached''))]) \<and>
   fetches (snd (waitAndRetryRequest alwaysAborted retryAlways world0)) = 3"
proof -
  have h1: "a_maxRetries retryAlways = 3" by (simp add: retryAlways_def)
  have h2: "\<forall>e c. a_retryOn retryAlways e c" by (simp add: retryAlways_def)
  have n1: "\<forall>k. \<exists>r. net permanent500 k = Resolved r \<and> \<not> ok r"
    by (simp add: permanent500_def ok_def)
  have n2: "\<forall>k. net alwaysAborted k = Rejected AbortError"
    by (simp add: alwaysAborted_def)
  have f0: "fetches world0 = 0" by (simp add: world0_def)
  have g1: "\<forall>k. case net permanent500 k of
                Rejected e \<Rightarrow> True
              | Resolved r \<Rightarrow>
                  \<not> ok r \<or>
                  isl (bindE (a_parseRequest retryAlways r
                                (if proxyInUse retryAlways then js ''json''
                                 else a_responseParseType retryAlways)
                                (a_onErrorInResponse retryAlways)) (proxyUnwrap retryAlways)) \<or>
                  (\<exists>v \<in> set (a_validateResponse retryAlways). \<not> v (a_previousFetchData retryAlways))"
    by (simp add: permanent500_def ok_def)
  have g2: "\<forall>k. case net alwaysAborted k of
                Rejected e \<Rightarrow> True
              | Resolved r \<Rightarrow>
                  \<not> ok r \<or>
                  isl (bindE (a_parseRequest retryAlways r
                                (if proxyInUse retryAlways then js ''json''
                                 else a_responseParseType retryAlways)
                                (a_onErrorInResponse retryAlways)) (proxyUnwrap retryAlways)) \<or>
                  (\<exists>v \<in> set (a_validateResponse retryAlways). \<not> v (a_previousFetchData retryAlways))"
    by (simp add: alwaysAborted_def)
  have a: "fst (waitAndRetryRequest permanent500 retryAlways world0)
             = Inr (JObj [(js ''error'', JStr (js ''Max Retries Reached''))]) \<and>
           fetches (snd (waitAndRetryRequest permanent500 retryAlways world0)) = fetches world0 + 3"
    using retries_exhausted_returns_payload[OF h1 h2 g1, of world0] .
  have b: "fst (waitAndRetryRequest alwaysAborted retryAlways world0)
             = Inr (JObj [(js ''error'', JStr (js ''Max Retries Reached''))]) \<and>
           fetches (snd (waitAndRetryRequest alwaysAborted retryAlways world0)) = fetches world0 + 3"
    using retries_exhausted_returns_payload[OF h1 h2 g2, of world0] .
  show ?thesis using h1 h2 n1 n2 a b unfolding f0 by simp
qed

text \<open>The first failure ends the call when the retry predicate rejects it.\<close>

lemma first_failure_is_fatal:
  assumes never: "\<forall>e c. \<not> a_retryOn A e c" and pos: "0 < a_maxRetries A"
    and fails: "tryBlock A (net E (fetches w)) = Inl err"
  shows "\<exists>w'. waitAndRetryRequest E A w =
           (Inl (Thrown (Some (a_onErrorInResponse A)) (Caught err) (Some (Caught err))), w') \<and>
         fetches w' = fetches w + 1 \<and>
         (\<exists>ctx code. trace w' = trace w
            @ (case a_onRequestStart A of Some f \<Rightarrow> [OnRequestStart f (a_currentFetchData A)]
               | None \<Rightarrow> [])
            @ [fetchCall A] @ handlerCalls err
            @ [BackOffStrategyCall 1 ctx, RetryOnCall err code,
               ErrorHandlerCall (a_onErrorInResponse A) (Caught err)])"
  unfolding waitAndRetryRequest_def Let_def
  apply (subst waitAndRetryLoop.simps)
  using assms
  apply (simp add: tryPart_def catchPart_def Let_def emit_def throwError_def split: option.splits)
  done

text \<open>
  Claim C7. With a retry predicate that always returns false, a first attempt that fails
  (the fetch is rejected, as it is with \<open>AbortError\<close> when the timeout fires; or the
  status is not 2xx; or the response is accepted and a validator rejects) ends the call:
  the error is handed to \<open>onErrorInResponse\<close> and thrown, one request has been issued, and
  after the request the trace holds the handler call of the failure itself, the call of
  the backoff function, of the predicate and of the handler, and nothing else: no
  \<open>onRetry\<close> and no delay.
\<close>

theorem no_retry_is_fatal:
  assumes never: "\<forall>e c. \<not> a_retryOn A e c" and pos: "0 < a_maxRetries A"
    and fails:
      "net E (fetches w) = Rejected err \<or>
       (\<exists>r. net E (fetches w) = Resolved r \<and> \<not> ok r \<and>
            err = Thrown (Some (a_onErrorInResponse A)) (Msg (js ''Response has some error:{}''))
                    (Some (Msg (js ''Response has some error:{}'')))) \<or>
       (\<exists>r parsed payload.
            net E (fetches w) = Resolved r \<and> ok r \<and>
            a_parseRequest A r (if proxyInUse A then js ''json'' else a_responseParseType A)
              (a_onErrorInResponse A) = Inr parsed \<and>
            proxyUnwrap A parsed = Inr payload \<and>
            (\<exists>v \<in> set (a_validateResponse A). \<not> v (a_previousFetchData A)) \<and>
            err = Thrown (Some (a_onErrorInResponse A)) (Msg (js ''Response failed user validation.''))
                    (Some (Msg (js ''Response failed user validation.''))))"
  shows "\<exists>w'. waitAndRetryRequest E A w =
           (Inl (Thrown (Some (a_onErrorInResponse A)) (Caught err) (Some (Caught err))), w') \<and>
         fetches w' = fetches w + 1 \<and>
         (\<exists>ctx code. trace w' = trace w
            @ (case a_onRequestStart A of Some f \<Rightarrow> [OnRequestStart f (a_currentFetchData A)]
               | None \<Rightarrow> [])
            @ [fetchCall A] @ handlerCalls err
            @ [BackOffStrategyCall 1 ctx, RetryOnCall err code,
               ErrorHandlerCall (a_onErrorInResponse A) (Caught err)])"
proof -
  have "tryBlock A (net E (fetches w)) = Inl err"
    using fails tryBlock_rejected tryBlock_status tryBlock_validator by (elim disjE exE conjE) simp_all
  from first_failure_is_fatal[OF never pos this] show ?thesis .
qed

text \<open>Three instances, with the hooks \<open>onRequestStart\<close> and \<open>onRetry\<close> set: a status 500,
  an aborted fetch, and a response with status 200 that a validator rejects.\<close>

theorem no_retry_is_fatal_witness:
  "(\<forall>e c. \<not> a_retryOn retryNever e c) \<and> 0 < a_maxRetries retryNever \<and>
   (\<exists>r. net permanent500 (fetches world0) = Resolved r \<and> \<not> ok r) \<and>
   (\<exists>w'. waitAndRetryRequest permanent500 retryNever world0 =
           (Inl (Thrown (Some 1)
                  (Caught (Thrown (Some 1) (Msg (js ''Response has some error:{}''))
                             (Some (Msg (js ''Response has some error:{}'')))))
                  (Some (Caught (Thrown (Some 1) (Msg (js ''Response has some error:{}''))
                             (Some (Msg (js ''Response has some error:{}''))))))), w') \<and>
         fetches w' = 1) \<and>
   net alwaysAborted (fetches world0) = Rejected AbortError \<and>
   (\<exists>w'. waitAndRetryRequest alwaysAborted retryNever world0 =
           (Inl (Thrown (Some 1) (Caught AbortError) (Some (Caught AbortError))), w') \<and>
         fetches w' = 1 \<and>
         (\<exists>ctx code. trace w' =
            [OnRequestStart 3 (JObj []), fetchCall retryNever,
             BackOffStrategyCall 1 ctx, RetryOnCall AbortError code,
             ErrorHandlerCall 1 (Caught AbortError)])) \<and>
   (\<forall>e c. \<not> a_retryOn (retryNever\<lparr>a_validateResponse := [\<lambda>ledger. False]\<rparr>) e c) \<and>
   0 < a_maxRetries (retryNever\<lparr>a_validateResponse := [\<lambda>ledger. False]\<rparr>) \<and>
   (\<exists>r. net alwaysOk (fetches world0) = Resolved r \<and> ok r) \<and>
   (\<exists>w'. waitAndRetryRequest alwaysOk (retryNever\<lparr>a_validateResponse := [\<lambda>ledger. False]\<rparr>) world0 =
           (Inl (Thrown (Some 1)
                  (Caught (Thrown (Some 1) (Msg (js ''Response failed user validation.''))
                             (Some (Msg (js ''Response failed user validation.'')))))
                  (Some (Caught (Thrown (Some 1) (Msg (js ''Response failed user validation.''))
                             (Some (Msg (js ''Response failed user validation.''))))))), w') \<and>
         fetches w' = 1)"
proof -
  let ?V = "retryNever\<lparr>a_validateResponse := [\<lambda>ledger. False]\<rparr>"
  let ?e1 = "Thrown (Some 1) (Msg (js ''Response has some error:{}''))
                (Some (Msg (js ''Response has some error:{}'')))"
  let ?e3 = "Thrown (Some 1) (Msg (js ''Response failed user validation.''))
                (Some (Msg (js ''Response failed user validation.'')))"
  have h1: "\<forall>e c. \<not> a_retryOn retryNever e c" by (simp add: retryNever_def)
  have h2: "0 < a_maxRetries retryNever" by (simp add: retryNever_def retryAlways_def)
  have v1: "\<forall>e c. \<not> a_retryOn ?V e c" by (simp add: retryNever_def)
  have v2: "0 < a_maxRetries ?V" by (simp add: retryNever_def retryAlways_def)
  have a: "a_onErrorInResponse retryNever = 1" "a_onErrorInResponse ?V = 1"
    "a_onRequestStart retryNever = Some 3" "a_currentFetchData retryNever = JObj []"
    by (simp_all add: retryNever_def retryAlways_def)
  have f0: "fetches world0 = 0" "trace world0 = []" by (simp_all add: world0_def)
  have n1: "\<exists>r. net permanent500 (fetches world0) = Resolved r \<and> \<not> ok r"
    by (simp add: permanent500_def ok_def)
  have n2: "net alwaysAborted (fetches world0) = Rejected AbortError"
    by (simp add: alwaysAborted_def)
  have n3: "\<exists>r. net alwaysOk (fetches world0) = Resolved r \<and> ok r"
    by (simp add: alwaysOk_def ok_def)
  have k1: "net permanent500 (fetches world0) = Rejected ?e1 \<or>
       (\<exists>r. net permanent500 (fetches world0) = Resolved r \<and> \<not> ok r \<and>
            ?e1 = Thrown (Some (a_onErrorInResponse retryNever)) (Msg (js ''Response has some error:{}''))
                    (Some (Msg (js ''Response has some error:{}'')))) \<or>
       (\<exists>r parsed payload.
            net permanent500 (fetches world0) = Resolved r \<and> ok r \<and>
            a_parseRequest retryNever r
              (if proxyInUse retryNever then js ''json'' else a_responseParseType retryNever)
              (a_onErrorInResponse retryNever) = Inr parsed \<and>
            proxyUnwrap retryNever parsed = Inr payload \<and>
            (\<exists>v \<in> set (a_validateResponse retryNever). \<not> v (a_previousFetchData retryNever)) \<and>
            ?e1 = Thrown (Some (a_onErrorInResponse retryNever)) (Msg (js ''Response failed user validation.''))
                    (Some (Msg (js ''Response failed user validation.''))))"
    using n1 a by simp
  have k3: "net alwaysOk (fetches world0) = Rejected ?e3 \<or>
       (\<exists>r. net alwaysOk (fetches world0) = Resolved r \<and> \<not> ok r \<and>
            ?e3 = Thrown (Some (a_onErrorInResponse ?V)) (Msg (js ''Response has some error:{}''))
                    (Some (Msg (js ''Response has some error:{}'')))) \<or>
       (\<exists>r parsed payload.
            net alwaysOk (fetches world0) = Resolved r \<and> ok r \<and>
            a_parseRequest ?V r
              (if proxyInUse ?V then js ''json'' else a_responseParseType ?V)
              (a_onErrorInResponse ?V) = Inr parsed \<and>
            proxyUnwrap ?V parsed = Inr payload \<and>
            (\<exists>v \<in> set (a_validateResponse ?V). \<not> v (a_previousFetchData ?V)) \<and>
            ?e3 = Thrown (Some (a_onErrorInResponse ?V)) (Msg (js ''Response failed user validation.''))
                    (Some (Msg (js ''Response failed user validation.''))))"
    by (simp add: alwaysOk_def ok_def retryNever_def retryAlways_def parseRequest_def
          proxyUnwrap_def proxyInUse_def)
  note T1 = no_retry_is_fatal[OF h1 h2 k1]
  note T2 = no_retry_is_fatal[OF h1 h2 disjI1[OF n2]]
  note T3 = no_retry_is_fatal[OF v1 v2 k3]
  have c1: "\<exists>w'. waitAndRetryRequest permanent500 retryNever world0 =
           (Inl (Thrown (Some 1) (Caught ?e1) (Some (Caught ?e1))), w') \<and> fetches w' = 1"
    using T1 unfolding a f0 by auto
  have c2: "\<exists>w'. waitAndRetryRequest alwaysAborted retryNever world0 =
           (Inl (Thrown (Some 1) (Caught AbortError) (Some (Caught AbortError))), w') \<and>
         fetches w' = 1 \<and>
         (\<exists>ctx code. trace w' =
            [OnRequestStart 3 (JObj []), fetchCall retryNever,
             BackOffStrategyCall 1 ctx, RetryOnCall AbortError code,
             ErrorHandlerCall 1 (Caught AbortError)])"
    using T2 unfolding a f0 by auto
  have c3: "\<exists>w'. waitAndRetryRequest alwaysOk ?V world0 =
           (Inl (Thrown (Some 1) (Caught ?e3) (Some (Caught ?e3))), w') \<and> fetches w' = 1"
    using T3 unfolding a f0 by auto
  show ?thesis using h1 h2 v1 v2 n1 n2 n3 c1 c2 c3 by blast
qed

text \<open>
  Claim C10. With \<open>maxRetries \<le> 0\<close> the loop is never entered: the payload
  \<open>{error: "Max Retries Reached"}\<close> is returned, no request is issued, no hook, validator,
  backoff function or handler is called (the trace is unchanged) and the storage is
  untouched; only the clock has been read once. The Ledger is a parameter that the function
  hands to validators and hooks and never assigns.
\<close>

theorem no_attempt_without_retries:
  assumes "a_maxRetries A \<le> 0"
  shows "waitAndRetryRequest E A w =
           (Inr maxRetriesReached, w\<lparr>clock_reads := Suc (clock_reads w)\<rparr>)"
  using assms by (simp add: waitAndRetryRequest_def waitAndRetryLoop.simps)

theorem no_attempt_without_retries_witness:
  "a_maxRetries (retryAlways\<lparr>a_maxRetries := 0\<rparr>) \<le> 0 \<and>
   waitAndRetryRequest permanent500 (retryAlways\<lparr>a_maxRetries := 0\<rparr>) world0 =
     (Inr maxRetriesReached, world0\<lparr>clock_reads := Suc (clock_reads world0)\<rparr>)"
  using no_attempt_without_retries[of "retryAlways\<lparr>a_maxRetries := 0\<rparr>" permanent500 world0]
  by simp


section \<open>Properties of the encoders, the resolver and the projection\<close>

lemma js_eq_iff [simp]: "js a = js b \<longleftrightarrow> a = b"
  by (simp add: js_def inj_map_eq_map inj_on_def)

lemma js_append [simp]: "js a @ js b = js (a @ b)"
  by (simp add: js_def)

text \<open>
  Claim C8. \<open>encodeBody\<close> returns \<open>JSON.stringify(body)\<close> for the format \<open>"json"\<close>, the
  form-url-encoded string for \<open>"url"\<close> and the body itself for \<open>"text"\<close> when the body is
  a string; \<open>"text"\<close> with a body that is not a string, and every other format, hand an
  error to \<open>onError\<close> and throw it: no body is returned.
\<close>

theorem encodeBody_by_format:
  "encodeBody E body (js ''json'') h = Inr (JSON_stringify body) \<and>
   encodeBody E body (js ''url'') h = Inr (JStr (urlSearchParams E body)) \<and>
   encodeBody E (JStr s) (js ''text'') h = Inr (JStr s) \<and>
   (js_typeof body \<noteq> TString \<longrightarrow>
      (\<exists>d. encodeBody E body (js ''text'') h =
            Inl (Thrown (Some h) (Msg (js ''Invalid body encoding format specified'')) d))) \<and>
   (fmt \<noteq> js ''json'' \<and> fmt \<noteq> js ''url'' \<and> fmt \<noteq> js ''text'' \<longrightarrow>
      (\<exists>d. encodeBody E body fmt h =
            Inl (Thrown (Some h) (Msg (js ''Invalid body encoding format specified'')) d)))"
  by (simp add: encodeBody_def bindE_def throwError_def)

theorem encodeBody_by_format_witness:
  "js_typeof responseAB \<noteq> TString \<and>
   js ''xml'' \<noteq> js ''json'' \<and> js ''xml'' \<noteq> js ''url'' \<and> js ''xml'' \<noteq> js ''text'' \<and>
   (\<exists>d. encodeBody permanent500 responseAB (js ''text'') 1 =
         Inl (Thrown (Some 1) (Msg (js ''Invalid body encoding format specified'')) d)) \<and>
   (\<exists>d. encodeBody permanent500 responseAB (js ''xml'') 1 =
         Inl (Thrown (Some 1) (Msg (js ''Invalid body encoding format specified'')) d))"
  using encodeBody_by_format[of permanent500 responseAB 1 "js ''xml''"]
  by (simp add: responseAB_def)

lemma obj_set_fresh: "k \<notin> set (map fst obj) \<Longrightarrow> obj_set obj k v = obj @ [(k, v)]"
  by (induction obj) auto

lemma map_fst_obj_set:
  "map fst (obj_set obj k v) = (if k \<in> set (map fst obj) then map fst obj else map fst obj @ [k])"
  by (induction obj) (force simp: image_iff)+

lemma distinct_obj_set: "distinct (map fst obj) \<Longrightarrow> distinct (map fst (obj_set obj k v))"
  by (simp add: map_fst_obj_set)

lemma map_of_obj_set: "map_of (obj_set obj k v) k' = (if k' = k then Some v else map_of obj k')"
  by (induction obj) auto

lemma resolveAll_distinct:
  "resolveAll c i g l cf h sp params acc = Inr final \<Longrightarrow> distinct (map fst acc) \<Longrightarrow>
   distinct (map fst final)"
proof (induction params arbitrary: acc)
  case Nil
  then show ?case by simp
next
  case (Cons p params)
  obtain key val where p: "p = (key, val)" by (cases p)
  from Cons.prems(1) obtain bound where
    b: "resolveParam c i g l cf h sp acc val = Inr bound"
    and r: "resolveAll c i g l cf h sp params
              (case bound of Some v \<Rightarrow> obj_set acc key v | None \<Rightarrow> acc) = Inr final"
    by (auto simp: p split: sum.splits)
  have "distinct (map fst (case bound of Some v \<Rightarrow> obj_set acc key v | None \<Rightarrow> acc))"
    using Cons.prems(2) by (cases bound) (simp_all add: distinct_obj_set)
  from Cons.IH[OF r this] show ?case .
qed

text \<open>On an object, whose property names are distinct, \<open>removeNestedObjects\<close> is a
  filter.\<close>

lemma keep_flat_fold:
  "distinct (map fst (acc @ obj)) \<Longrightarrow>
   foldl (\<lambda>finalObj (key, value).
            if js_typeof value \<noteq> TObject then obj_set finalObj key value else finalObj) acc obj
   = acc @ filter (\<lambda>(key, value). js_typeof value \<noteq> TObject) obj"
proof (induction obj arbitrary: acc)
  case Nil
  then show ?case by simp
next
  case (Cons p obj)
  obtain k v where p: "p = (k, v)" by (cases p)
  show ?case
  proof (cases "js_typeof v \<noteq> TObject")
    case True
    have fresh: "k \<notin> set (map fst acc)" using Cons.prems by (auto simp: p)
    have d: "distinct (map fst ((acc @ [(k, v)]) @ obj))" using Cons.prems by (simp add: p)
    show ?thesis using Cons.IH[OF d] True by (simp add: p obj_set_fresh[OF fresh])
  next
    case False
    have d: "distinct (map fst (acc @ obj))" using Cons.prems by (simp add: p)
    show ?thesis using Cons.IH[OF d] False by (simp add: p)
  qed
qed

lemma removeNestedObjects_filter:
  "distinct (map fst obj) \<Longrightarrow>
   removeNestedObjects obj = filter (\<lambda>(key, value). js_typeof value \<noteq> TObject) obj"
  using keep_flat_fold[of "[]" obj] by (simp add: removeNestedObjects_def)

text \<open>
  Claim C9. The map that \<open>getAllParams\<close> returns holds exactly the resolved bindings
  whose value is not an object, in the order they were resolved: a key whose value has
  \<open>typeof\<close> \<open>"object"\<close> is dropped, so no value of the returned map is an object.
\<close>

theorem getAllParams_is_flat:
  assumes "getAllParams c i n g params l cf h sp = Inr result"
  shows "\<exists>resolved. resolveAll c i g l cf h sp params [] = Inr resolved \<and>
           result = filter (\<lambda>(key, value). js_typeof value \<noteq> TObject) resolved \<and>
           (\<forall>(key, value) \<in> set result. js_typeof value \<noteq> TObject)"
proof -
  from assms obtain resolved where r: "resolveAll c i g l cf h sp params [] = Inr resolved"
    and res: "result = removeNestedObjects resolved"
    by (auto simp: getAllParams_def bindE_def split: sum.splits)
  have "distinct (map fst resolved)" using resolveAll_distinct[OF r] by simp
  then have "result = filter (\<lambda>(key, value). js_typeof value \<noteq> TObject) resolved"
    using res removeNestedObjects_filter by simp
  then show ?thesis using r by auto
qed

theorem getAllParams_is_flat_witness:
  "getAllParams None False (js ''urlParams'') [] mixedParams [] (JObj []) 1 None
     = Inr [(js ''client_id'', JStr (js ''abc''))] \<and>
   (\<exists>resolved. resolveAll None False [] [] (JObj []) 1 None mixedParams [] = Inr resolved \<and>
      [(js ''client_id'', JStr (js ''abc''))]
        = filter (\<lambda>(key, value). js_typeof value \<noteq> TObject) resolved \<and>
      (\<forall>(key, value) \<in> set [(js ''client_id'', JStr (js ''abc''))]. js_typeof value \<noteq> TObject))"
proof -
  have h: "getAllParams None False (js ''urlParams'') [] mixedParams [] (JObj []) 1 None
             = Inr [(js ''client_id'', JStr (js ''abc''))]"
    by (simp add: getAllParams_def mixedParams_def resolveParam_def requireValue_def bindE_def
          removeNestedObjects_def)
  show ?thesis using getAllParams_is_flat[OF h] h by simp
qed

lemma walkResponse_routed:
  "walkResponse E h nd segs = Inl e \<Longrightarrow> \<exists>m d. e = Thrown (Some h) m d"
  by (induction E h nd segs rule: walkResponse.induct)
     (auto simp: throwError_def split: if_splits sum.splits)

text \<open>The walk of the source succeeds exactly when the plain chain of lookups does and
  no segment is looked up in a string or in \<open>undefined\<close>; it then yields the same value.\<close>

lemma walkResponse_iff:
  "walkResponse E h nd segs = Inr v \<longleftrightarrow> nestedLookup E nd segs = Inr v \<and> \<not> deadEnd E nd segs"
proof (induction segs arbitrary: nd)
  case Nil
  then show ?case by simp
next
  case (Cons s ss)
  show ?case
  proof (cases "js_lookup E nd s")
    case (Inl e)
    then show ?thesis by (simp add: throwError_def)
  next
    case (Inr nxt)
    then show ?thesis using Cons.IH[of nxt] by (simp add: throwError_def)
  qed
qed

lemma storeValues_routed:
  "storeValues E spec resp h acc = Inl e \<Longrightarrow> \<exists>m d. e = Thrown (Some h) m d"
proof (induction spec arbitrary: acc)
  case Nil
  then show ?case by simp
next
  case (Cons p spec)
  obtain k sp where p: "p = (k, sp)" by (cases p)
  show ?case
  proof (cases "projection E h resp sp")
    case (Inl e')
    then have "e = e'" using Cons.prems by (simp add: p projection_def)
    moreover have "\<exists>m d. e' = Thrown (Some h) m d"
      using Inl walkResponse_routed by (cases sp) (auto simp: projection_def)
    ultimately show ?thesis by simp
  next
    case (Inr v)
    then have "storeValues E spec resp h (obj_set acc k v) = Inl e"
      using Cons.prems by (simp add: p projection_def)
    then show ?thesis by (rule Cons.IH)
  qed
qed

lemma storeValues_fails:
  "(k, sp) \<in> set spec \<Longrightarrow> isl (projection E h resp sp) \<Longrightarrow> isl (storeValues E spec resp h acc)"
proof (induction spec arbitrary: acc)
  case Nil
  then show ?case by simp
next
  case (Cons p spec)
  obtain k' sp' where p: "p = (k', sp')" by (cases p)
  show ?case
  proof (cases "projection E h resp sp'")
    case (Inl e)
    then show ?thesis by (simp add: p projection_def)
  next
    case (Inr v)
    then have "(k, sp) \<in> set spec" using Cons.prems by (auto simp: p)
    from Cons.IH[OF this Cons.prems(2)] show ?thesis using Inr by (simp add: p projection_def)
  qed
qed

lemma storeValues_succeeds:
  "\<forall>(k, sp) \<in> set spec. \<not> isl (projection E h resp sp) \<Longrightarrow> \<not> isl (storeValues E spec resp h acc)"
proof (induction spec arbitrary: acc)
  case Nil
  then show ?case by simp
next
  case (Cons p spec)
  obtain k' sp' where p: "p = (k', sp')" by (cases p)
  from Cons.prems obtain v where v: "projection E h resp sp' = Inr v"
    by (cases "projection E h resp sp'") (auto simp: p)
  have "\<forall>(k, sp) \<in> set spec. \<not> isl (projection E h resp sp)" using Cons.prems by simp
  from Cons.IH[OF this] show ?case using v by (simp add: p projection_def)
qed

lemma storeValues_result:
  "storeValues E spec resp h acc = Inr out \<Longrightarrow> distinct (map fst spec) \<Longrightarrow>
   set (map fst spec) \<inter> set (map fst acc) = {} \<Longrightarrow>
   map fst out = map fst acc @ map fst spec \<and>
   (\<forall>(k, sp) \<in> set spec. projection E h resp sp = Inr (the (map_of out k)) \<and> map_of out k \<noteq> None)
   \<and> (\<forall>k. k \<notin> set (map fst spec) \<longrightarrow> map_of out k = map_of acc k)"
proof (induction spec arbitrary: acc)
  case Nil
  then show ?case by simp
next
  case (Cons p spec)
  obtain k sp where p: "p = (k, sp)" by (cases p)
  from Cons.prems(1) obtain v where v: "projection E h resp sp = Inr v"
    and rest: "storeValues E spec resp h (obj_set acc k v) = Inr out"
    by (auto simp: p projection_def split: sum.splits)
  have fresh: "k \<notin> set (map fst acc)" using Cons.prems(3) by (auto simp: p)
  have acc': "obj_set acc k v = acc @ [(k, v)]" using obj_set_fresh[OF fresh] .
  have d: "distinct (map fst spec)" and kn: "k \<notin> set (map fst spec)"
    using Cons.prems(2) by (auto simp: p)
  have disj: "set (map fst spec) \<inter> set (map fst (obj_set acc k v)) = {}"
    using Cons.prems(3) kn by (auto simp: acc' p)
  note IH = Cons.IH[OF rest d disj]
  have mk: "map_of out k = Some v" using IH kn by (simp add: map_of_obj_set)
  have c1: "map fst out = map fst acc @ map fst (p # spec)" using IH by (simp add: p acc')
  have c2: "\<forall>(k, sp) \<in> set (p # spec).
              projection E h resp sp = Inr (the (map_of out k)) \<and> map_of out k \<noteq> None"
    using IH mk v by (simp add: p)
  have c3: "\<forall>k'. k' \<notin> set (map fst (p # spec)) \<longrightarrow> map_of out k' = map_of acc k'"
    using IH by (simp add: p map_of_obj_set)
  show ?case using c1 c2 c3 by blast
qed

text \<open>
  Claim C5. For a \<open>toReturn\<close> table (an object, so its keys are distinct) and every
  engine: when \<open>storeValuesToReturn\<close> returns, the result has the keys of the table, a key
  with \<open>"all"\<close> is bound to the whole response, and a key with a path is bound to the value
  reached by looking up the segments one after the other, each with the property access of
  the language, inherited properties included; it returns whenever every path
  can be followed without a failing lookup and without looking a segment up in a string or
  in \<open>undefined\<close>; and when some path does look a segment up in a string or in
  \<open>undefined\<close>, the error goes to \<open>onErrorInResponse\<close> and is thrown, so no value is
  produced.
\<close>

theorem storeValuesToReturn_projects:
  assumes "distinct (map fst spec)"
  shows "(\<forall>acc. storeValuesToReturn E spec resp h = Inr acc \<longrightarrow>
            map fst acc = map fst spec \<and>
            (\<forall>key. (key, All) \<in> set spec \<longrightarrow> map_of acc key = Some (Data resp)) \<and>
            (\<forall>key segs. (key, Path segs) \<in> set spec \<longrightarrow>
               (\<exists>v. nestedLookup E (Data resp) segs = Inr v \<and> map_of acc key = Some v))) \<and>
         ((\<forall>key segs. (key, Path segs) \<in> set spec \<longrightarrow>
              \<not> isl (nestedLookup E (Data resp) segs) \<and> \<not> deadEnd E (Data resp) segs) \<longrightarrow>
            \<not> isl (storeValuesToReturn E spec resp h)) \<and>
         ((\<exists>key segs. (key, Path segs) \<in> set spec \<and> deadEnd E (Data resp) segs) \<longrightarrow>
            (\<exists>m d. storeValuesToReturn E spec resp h = Inl (Thrown (Some h) m d)))"
proof (intro conjI allI impI)
  fix acc assume ok: "storeValuesToReturn E spec resp h = Inr acc"
  then have sv: "storeValues E spec resp h [] = Inr acc" by (simp add: storeValuesToReturn_def)
  note R = storeValues_result[OF sv assms]
  show "map fst acc = map fst spec" using R by simp
  { fix key assume "(key, All) \<in> set spec"
    then show "map_of acc key = Some (Data resp)" using R by (force simp: projection_def) }
  { fix key segs assume "(key, Path segs) \<in> set spec"
    then have "walkResponse E h (Data resp) segs = Inr (the (map_of acc key))" and "map_of acc key \<noteq> None"
      using R by (force simp: projection_def)+
    then show "\<exists>v. nestedLookup E (Data resp) segs = Inr v \<and> map_of acc key = Some v"
      using walkResponse_iff by auto }
next
  assume a: "\<forall>key segs. (key, Path segs) \<in> set spec \<longrightarrow>
              \<not> isl (nestedLookup E (Data resp) segs) \<and> \<not> deadEnd E (Data resp) segs"
  have "\<forall>(k, sp) \<in> set spec. \<not> isl (projection E h resp sp)"
  proof (clarify)
    fix k sp assume in_spec: "(k, sp) \<in> set spec" and l: "isl (projection E h resp sp)"
    show False
    proof (cases sp)
      case All
      then show ?thesis using l by (simp add: projection_def)
    next
      case (Path segs)
      with a in_spec have n: "\<not> isl (nestedLookup E (Data resp) segs)" and "\<not> deadEnd E (Data resp) segs"
        by auto
      then obtain v where "nestedLookup E (Data resp) segs = Inr v" and "\<not> deadEnd E (Data resp) segs"
        by (cases "nestedLookup E (Data resp) segs") auto
      then have "walkResponse E h (Data resp) segs = Inr v" using walkResponse_iff by simp
      then show ?thesis using l Path by (simp add: projection_def)
    qed
  qed
  then show "\<not> isl (storeValuesToReturn E spec resp h)"
    using storeValues_succeeds by (simp add: storeValuesToReturn_def)
next
  assume "\<exists>key segs. (key, Path segs) \<in> set spec \<and> deadEnd E (Data resp) segs"
  then obtain key segs where in_spec: "(key, Path segs) \<in> set spec" and de: "deadEnd E (Data resp) segs"
    by blast
  have "isl (walkResponse E h (Data resp) segs)"
    using de walkResponse_iff[of E h "Data resp" segs] by (cases "walkResponse E h (Data resp) segs") auto
  then have "isl (projection E h resp (Path segs))" by (simp add: projection_def)
  from storeValues_fails[OF in_spec this]
  obtain e where "storeValues E spec resp h [] = Inl e" by (auto simp: isl_def)
  then show "\<exists>m d. storeValuesToReturn E spec resp h = Inl (Thrown (Some h) m d)"
    using storeValues_routed by (fastforce simp: storeValuesToReturn_def)
qed


theorem storeValuesToReturn_projects_witness:
  "distinct (map fst [(js ''out'', Path [js ''a'', js ''b'']), (js ''whole'', All),
                      (js ''kind'', Path [js ''constructor'', js ''name''])]) \<and>
   storeValuesToReturn objectEngine
       [(js ''out'', Path [js ''a'', js ''b'']), (js ''whole'', All),
        (js ''kind'', Path [js ''constructor'', js ''name''])] responseAB 1
     = Inr [(js ''out'', Data (JStr (js ''x''))), (js ''whole'', Data responseAB),
            (js ''kind'', Data (JStr (js ''Object'')))] \<and>
   nestedLookup objectEngine (Data responseAB) [js ''a'', js ''b''] = Inr (Data (JStr (js ''x''))) \<and>
   nestedLookup objectEngine (Data responseAB) [js ''constructor'', js ''name'']
     = Inr (Data (JStr (js ''Object''))) \<and>
   \<not> deadEnd objectEngine (Data responseAB) [js ''a'', js ''b''] \<and>
   \<not> deadEnd objectEngine (Data responseAB) [js ''constructor'', js ''name''] \<and>
   distinct (map fst [(js ''out'', Path [js ''a'', js ''b'', js ''c''])]) \<and>
   deadEnd objectEngine (Data responseAB) [js ''a'', js ''b'', js ''c''] \<and>
   (\<exists>m d. storeValuesToReturn objectEngine [(js ''out'', Path [js ''a'', js ''b'', js ''c''])]
              responseAB 1
            = Inl (Thrown (Some 1) m d))"
proof -
  let ?spec1 = "[(js ''out'', Path [js ''a'', js ''b'']), (js ''whole'', All),
                 (js ''kind'', Path [js ''constructor'', js ''name''])]"
  let ?spec2 = "[(js ''out'', Path [js ''a'', js ''b'', js ''c''])]"
  have d1: "distinct (map fst ?spec1)" by simp
  have d2: "distinct (map fst ?spec2)" by simp
  have n1: "nestedLookup objectEngine (Data responseAB) [js ''a'', js ''b'']
              = Inr (Data (JStr (js ''x'')))"
    by (simp add: responseAB_def)
  have n2: "nestedLookup objectEngine (Data responseAB) [js ''constructor'', js ''name'']
              = Inr (Data (JStr (js ''Object'')))"
    by (simp add: responseAB_def objectEngine_def)
  have l1: "\<not> deadEnd objectEngine (Data responseAB) [js ''a'', js ''b'']"
    by (simp add: responseAB_def)
  have l2: "\<not> deadEnd objectEngine (Data responseAB) [js ''constructor'', js ''name'']"
    by (simp add: responseAB_def objectEngine_def)
  have de: "deadEnd objectEngine (Data responseAB) [js ''a'', js ''b'', js ''c'']"
    by (simp add: responseAB_def)
  note T1 = storeValuesToReturn_projects[OF d1, of objectEngine responseAB 1]
  note T2 = storeValuesToReturn_projects[OF d2, of objectEngine responseAB 1]
  have "\<forall>key segs. (key, Path segs) \<in> set ?spec1 \<longrightarrow>
          \<not> isl (nestedLookup objectEngine (Data responseAB) segs) \<and>
          \<not> deadEnd objectEngine (Data responseAB) segs"
    using n1 n2 l1 l2 by auto
  then have "\<not> isl (storeValuesToReturn objectEngine ?spec1 responseAB 1)" using T1 by blast
  then obtain acc where acc: "storeValuesToReturn objectEngine ?spec1 responseAB 1 = Inr acc"
    by (cases "storeValuesToReturn objectEngine ?spec1 responseAB 1") auto
  have m1: "(js ''out'', Path [js ''a'', js ''b'']) \<in> set ?spec1" by simp
  have m2: "(js ''kind'', Path [js ''constructor'', js ''name'']) \<in> set ?spec1" by simp
  have m3: "(js ''whole'', All) \<in> set ?spec1" by simp
  have keys: "map fst acc = map fst ?spec1" using T1 acc by blast
  have w: "map_of acc (js ''whole'') = Some (Data responseAB)" using T1 acc m3 by blast
  obtain v where "nestedLookup objectEngine (Data responseAB) [js ''a'', js ''b''] = Inr v"
    and "map_of acc (js ''out'') = Some v" using T1 acc m1 by blast
  then have o: "map_of acc (js ''out'') = Some (Data (JStr (js ''x'')))" using n1 by simp
  obtain v' where
    "nestedLookup objectEngine (Data responseAB) [js ''constructor'', js ''name''] = Inr v'"
    and "map_of acc (js ''kind'') = Some v'" using T1 acc m2 by blast
  then have k: "map_of acc (js ''kind'') = Some (Data (JStr (js ''Object'')))" using n2 by simp
  obtain v1 v2 v3 where shape: "acc = [(js ''out'', v1), (js ''whole'', v2), (js ''kind'', v3)]"
    using keys by (auto simp: map_eq_Cons_conv)
  have e1: "acc = [(js ''out'', Data (JStr (js ''x''))), (js ''whole'', Data responseAB),
                   (js ''kind'', Data (JStr (js ''Object'')))]"
    using o w k unfolding shape by simp
  have m: "(js ''out'', Path [js ''a'', js ''b'', js ''c'']) \<in> set ?spec2" by simp
  have "\<exists>m d. storeValuesToReturn objectEngine ?spec2 responseAB 1 = Inl (Thrown (Some 1) m d)"
    using T2 de m by blast
  then show ?thesis using d1 d2 acc e1 n1 n2 l1 l2 de by simp
qed

text \<open>
  Claim C1. The reference \<open>["step1", "response", "token"]\<close> is resolved against the
  Ledger \<open>{step1: {request: {}, response: {token: "T"}}}\<close> with no override map. The
  lookup starts at the response half and then walks all three elements of the array,
  the step name and \<open>"response"\<close> included: \<open>response["step1"]\<close> is \<open>undefined\<close>, the
  next lookup fails, and the error handler is invoked; the parameter is not bound to
  \<open>"T"\<close>. Against a Ledger with no entry \<open>step2\<close>, \<open>previousFetchData["step2"]["response"]\<close>
  raises a \<open>TypeError\<close> outside every \<open>try\<close>: the error handler is not invoked.
\<close>

theorem reference_walks_all_segments:
  "getAllParams None False (js ''headers'') []
     [(js ''Authorization'', FromPreviousFetches [js ''step1'', js ''response'', js ''token''])]
     ledger1 (JObj []) 7 None
   = Inl (Thrown (Some 7) (Msg (js ''Parameter response not found in previous fetches: ''))
            (Some (Msg (js ''Parameter response not found in previous fetches: ''))))
   \<and>
   getAllParams None False (js ''headers'') []
     [(js ''Authorization'', FromPreviousFetches [js ''step2'', js ''response'', js ''token''])]
     ledger1 (JObj []) 7 None
   = Inl TypeError"
  by (simp add: getAllParams_def resolveParam_def resolveReference_def bindE_def segment_def
        ledgerHalf_def ledger1_def throwError_def)


section \<open>Properties of \<open>initParams\<close>\<close>

lemma bindE_Inr: "bindE m f = Inr y \<longleftrightarrow> (\<exists>x. m = Inr x \<and> f x = Inr y)"
  by (cases m) (simp_all add: bindE_def)

lemma getAllParams_empty: "getAllParams c i n g [] l cf h sp = Inr []"
  by (simp add: getAllParams_def bindE_def removeNestedObjects_def)

lemma initParams_retry_fields:
  assumes "initParams c i reqUrls url obs globalTimeout given ledger sp = Inr p"
    and "map_of reqUrls url = Some details"
  shows "p_timeout p = orElse (rq_timeout (u_request details)) globalTimeout"
    and "p_maxRetries p = (case r_maxRetries (retriesObjectOf (u_request details)) of
                              Some n \<Rightarrow> if n \<noteq> 0 then n else 2 | None \<Rightarrow> 2)"
    and "p_retryOn p = orElse (r_retryOn (retriesObjectOf (u_request details)))
                          (\<lambda>error statusCode. statusCode \<in> set [429, 503])"
    and "p_backOffStrategy p = orElse (r_backOffStrategy (retriesObjectOf (u_request details)))
            (\<lambda>attempt retryContext. orElse (rq_timeout (u_request details)) globalTimeout)"
  using assms by (auto simp: initParams_def Let_def bindE_Inr)

text \<open>
  Claim C3. In what \<open>initParams\<close> returns for a step, the timeout is the step's own or
  else the global one; when the retry policy, or the field in it, is omitted,
  \<open>maxRetries\<close> is 2, the retry predicate is true exactly for the status codes 429 and
  503, and the backoff function returns that timeout for every attempt number and retry
  context.
\<close>

theorem initParams_retry_defaults:
  assumes "initParams c i reqUrls url obs globalTimeout given ledger sp = Inr p"
    and "map_of reqUrls url = Some details"
  shows "p_timeout p = orElse (rq_timeout (u_request details)) globalTimeout \<and>
         (r_maxRetries (retriesObjectOf (u_request details)) = None \<longrightarrow> p_maxRetries p = 2) \<and>
         (r_retryOn (retriesObjectOf (u_request details)) = None \<longrightarrow>
            (\<forall>error statusCode.
                p_retryOn p error statusCode \<longleftrightarrow> statusCode = 429 \<or> statusCode = 503)) \<and>
         (r_backOffStrategy (retriesObjectOf (u_request details)) = None \<longrightarrow>
            (\<forall>attempt retryContext. p_backOffStrategy p attempt retryContext = p_timeout p))"
  using initParams_retry_fields[OF assms]
  by (auto simp: orElse_def)

theorem initParams_retry_defaults_witness:
  "map_of [(js ''https://provider.example/a'', plainStep)] (js ''https://provider.example/a'')
     = Some plainStep \<and>
   r_maxRetries (retriesObjectOf (u_request plainStep)) = None \<and>
   r_retryOn (retriesObjectOf (u_request plainStep)) = None \<and>
   r_backOffStrategy (retriesObjectOf (u_request plainStep)) = None \<and>
   (\<exists>p. initParams None False [(js ''https://provider.example/a'', plainStep)]
            (js ''https://provider.example/a'') observers0 5000 [] [] None = Inr p \<and>
        p_timeout p = 5000 \<and> p_maxRetries p = 2 \<and>
        (\<forall>error statusCode. p_retryOn p error statusCode \<longleftrightarrow> statusCode = 429 \<or> statusCode = 503) \<and>
        (\<forall>attempt retryContext. p_backOffStrategy p attempt retryContext = 5000))"
proof -
  let ?urls = "[(js ''https://provider.example/a'', plainStep)]"
  have m: "map_of ?urls (js ''https://provider.example/a'') = Some plainStep" by simp
  have r: "retriesObjectOf (u_request plainStep)
             = \<lparr>r_maxRetries = None, r_backOffStrategy = None, r_retryOn = None, r_onRetry = None\<rparr>"
    by (simp add: retriesObjectOf_def plainStep_def orElse_def)
  have t: "orElse (rq_timeout (u_request plainStep)) 5000 = (5000 :: int)"
    by (simp add: plainStep_def orElse_def)
  obtain p where h: "initParams None False ?urls (js ''https://provider.example/a'') observers0
                       5000 [] [] None = Inr p"
    by (simp add: initParams_def Let_def bindE_def orElse_def plainStep_def getAllParams_empty)
  from initParams_retry_defaults[OF h m] show ?thesis
    using h m unfolding r t by auto
qed


section \<open>Properties of the redirect bridge\<close>

text \<open>
  Claim C4. The bridge encodes the JSON text of the Ledger and of the Result Accumulator
  with \<open>btoa\<close>, which accepts code units up to 255 only. With the Ledger
  \<open>{profile: {request: {}, response: {name: "\<euro>"}}}\<close> the call of
  \<open>redirectOnCustomProviderButtonClick\<close> ends with \<open>InvalidCharacterError\<close>: nothing is
  stored under either key, no form is appended and none is submitted. With the Ledger
  \<open>{step1: {request: {}, response: {token: "T"}}}\<close> and the Result Accumulator
  \<open>{user: "\<euro>"}\<close> it ends with the same error after the Ledger has been stored: the
  entry \<open>"fetch data before redirect: "\<close> is there and \<open>"values to return: "\<close> is not.
  So there are Ledgers and Result Accumulators that the bridge does not write, and none
  to read back.
\<close>

theorem bridge_rejects_wide_strings:
  "(case redirectOnCustomProviderButtonClick permanent500 (js ''GET'') lastStepParams
          (js ''https://provider.example/authorize'') ledgerEuro
          (js ''fetch data before redirect: '') (js ''values to return: '') [] False None world0
    of (result, w) \<Rightarrow>
      result = Inl InvalidCharacterError \<and>
      localStorage w (js ''fetch data before redirect: '') = None \<and>
      localStorage w (js ''values to return: '') = None \<and>
      trace w = []) \<and>
   (case redirectOnCustomProviderButtonClick permanent500 (js ''GET'') lastStepParams
          (js ''https://provider.example/authorize'') ledger1
          (js ''fetch data before redirect: '') (js ''values to return: '') accumulatorEuro
          False None world0
    of (result, w) \<Rightarrow>
      result = Inl InvalidCharacterError \<and>
      localStorage w (js ''fetch data before redirect: '')
        = Some (b64_encode (js (''{\"step1\":{\"request\":{},\"response\":{\"token\":\"T\"}},'' @
               ''\"authorize\":{\"request\":{\"method\":\"GET\",'' @
               ''\"url\":\"https://provider.example/authorize?client_id=abc\",'' @
               ''\"urlParams\":{\"client_id\":\"abc\"},\"headers\":{},\"body\":{}},'' @
               ''\"response\":{}}}''))) \<and>
      localStorage w (js ''values to return: '') = None \<and>
      trace w = [])"
  by code_simp

section \<open>Properties of the pipeline runner\<close>








lemma emit_storage [simp]: "localStorage (emit es w) = localStorage w"
  by (simp add: emit_def)











end
